theory Spec2Isabelle
  imports Complex_Main "HOL-Library.Char_ord" "HOL-Library.List_Lexorder"
begin

section \<open>Python values used by app.py\<close>

text \<open>
  The dashboard stores two kinds of values in its dictionaries: floats (the two
  temperatures) and strings (the formatted timestamp). A float in a dictionary is finite
  and is modelled by the real number it denotes. A Python \<open>str\<close> is a
  list of code points; every code point in app.py's output is below 256, so one \<open>char\<close>
  is one code point (the degree sign is \<open>CHR 0xB0\<close>).
\<close>

datatype pyval = PyFloat real | PyStr string

text \<open>A float that may be NaN, for the results of computations that can produce one. The
  arithmetic is that of the reals on finite values, and NaN is absorbing.\<close>

datatype pyfloat = Finite real | NotANumber

fun fmul :: "pyfloat \<Rightarrow> pyfloat \<Rightarrow> pyfloat" where
  "fmul (Finite a) (Finite b) = Finite (a * b)"
| "fmul _ _ = NotANumber"

fun fadd :: "pyfloat \<Rightarrow> pyfloat \<Rightarrow> pyfloat" where
  "fadd (Finite a) (Finite b) = Finite (a + b)"
| "fadd _ _ = NotANumber"

text \<open>The exceptions of the model. \<open>LibraryError\<close> stands for any exception raised inside
  pandas or scipy. \<open>DanglingReference\<close> has no Python counterpart: it makes the lookup of a
  frame reference total, and no reference the pipeline returns ever produces it.\<close>

datatype error =
  UnboundLocalError | KeyError | ValueError | TypeError | LibraryError | DanglingReference

text \<open>\<open>a < b\<close> in Python: floats compare numerically, strings lexicographically by code
  point, and a float against a string raises TypeError (\<open>None\<close>).\<close>

fun py_lt :: "pyval \<Rightarrow> pyval \<Rightarrow> bool option" where
  "py_lt (PyFloat a) (PyFloat b) = Some (a < b)"
| "py_lt (PyStr a) (PyStr b) = Some (a < b)"
| "py_lt _ _ = None"

subsection \<open>Decimal output\<close>

definition digit_char :: "nat \<Rightarrow> char" where
  "digit_char n = ''0123456789'' ! n"

fun show_nat :: "nat \<Rightarrow> string" where
  "show_nat n = (if n < 10 then [digit_char n] else show_nat (n div 10) @ [digit_char (n mod 10)])"

declare show_nat.simps [simp del]

definition zfill :: "nat \<Rightarrow> string \<Rightarrow> string" where
  "zfill w s = replicate (w - length s) (CHR ''0'') @ s"

text \<open>
  \<open>repr\<close> of a float, which is what an f-string prints for \<open>{x}\<close>. The definition covers
  the floats app.py formats: results of \<open>round(x, 1)\<close>, that is the double nearest to a
  decimal with one fractional digit, whose shortest round-tripping representation is
  that decimal (sign, integer digits, point, one digit). Negative zero is not covered.
\<close>

definition float_repr :: "real \<Rightarrow> string" where
  "float_repr x =
     (let t = nat \<lfloor>\<bar>x\<bar> * 10\<rfloor>
      in (if x < 0 then ''-'' else []) @ show_nat (t div 10) @ ''.'' @ show_nat (t mod 10))"

fun py_format :: "pyval \<Rightarrow> string" where
  "py_format (PyFloat x) = float_repr x"
| "py_format (PyStr s) = s"

subsection \<open>Clock and random source\<close>

record datetime =
  dt_year :: nat
  dt_month :: nat
  dt_day :: nat
  dt_hour :: nat
  dt_minute :: nat
  dt_second :: nat
  dt_microsecond :: nat

text \<open>\<open>strftime("%Y-%m-%d %H:%M:%S")\<close>.\<close>

definition strftime :: "datetime \<Rightarrow> string" where
  "strftime dt =
     zfill 4 (show_nat (dt_year dt)) @ ''-'' @ zfill 2 (show_nat (dt_month dt)) @ ''-'' @
     zfill 2 (show_nat (dt_day dt)) @ '' '' @ zfill 2 (show_nat (dt_hour dt)) @ '':'' @
     zfill 2 (show_nat (dt_minute dt)) @ '':'' @ zfill 2 (show_nat (dt_second dt))"

text \<open>\<open>round(x, 1)\<close> on a double \<open>x\<close>: the multiple of one tenth nearest to the exact value
  of \<open>x\<close>, a tie going to the even digit. Python returns the double nearest to that
  decimal; the decimal itself stands for it here.\<close>

definition round_half_even :: "real \<Rightarrow> int" where
  "round_half_even y =
     (let f = \<lfloor>y\<rfloor>; d = y - of_int f
      in if d < 1 / 2 then f else if 1 / 2 < d then f + 1 else if even f then f else f + 1)"

definition py_round1 :: "real \<Rightarrow> real" where
  "py_round1 x = of_int (round_half_even (x * 10)) / 10"

text \<open>
  What one invocation of the pipeline takes from its environment. \<open>random.uniform\<close> is
  called twice; what a call returns depends on the state of the generator, so each call is
  a function of its two arguments: \<open>uniform_1st inp a b\<close> is the double the first call
  returns for \<open>random.uniform(a, b)\<close>, \<open>uniform_2nd inp a b\<close> the second. Python
  documents \<open>a \<le> N \<le> b\<close> for the result \<open>N\<close> when \<open>a \<le> b\<close>. \<open>now\<close> is what
  \<open>datetime.now()\<close> returns.
\<close>

record inputs =
  uniform_1st :: "real \<Rightarrow> real \<Rightarrow> real"
  uniform_2nd :: "real \<Rightarrow> real \<Rightarrow> real"
  now :: datetime

section \<open>Readings, the deque and the DataFrame\<close>

text \<open>A reading is a Python dict; its keys keep their insertion order.\<close>

type_synonym entry = "(string \<times> pyval) list"

definition DEQUE_SIZE :: nat where
  "DEQUE_SIZE = 5"

definition UPDATE_INTERVAL_SECS :: nat where
  "UPDATE_INTERVAL_SECS = 3"

text \<open>\<open>deque(maxlen=m).append(x)\<close>: the element is added on the right, and when the
  deque is then longer than \<open>m\<close> the leftmost element is removed.\<close>

definition deque_append :: "nat \<Rightarrow> 'a list \<Rightarrow> 'a \<Rightarrow> 'a list" where
  "deque_append m d x = (let d' = d @ [x] in if m < length d' then tl d' else d')"

datatype cell = NaN | Val pyval | Timestamp datetime

record dataframe =
  nrows :: nat
  columns :: "(string \<times> cell list) list"

text \<open>The column labels of a frame built from dicts: every key, in order of first
  appearance.\<close>

fun key_union :: "string list \<Rightarrow> string list \<Rightarrow> string list" where
  "key_union acc [] = acc"
| "key_union acc (k # ks) = key_union (if k \<in> set acc then acc else acc @ [k]) ks"

text \<open>The column of key \<open>k\<close>: one cell per dict, a missing key giving NaN.\<close>

definition column_of :: "string \<Rightarrow> entry list \<Rightarrow> cell list" where
  "column_of k ds = map (\<lambda>d. case map_of d k of None \<Rightarrow> NaN | Some v \<Rightarrow> Val v) ds"

text \<open>\<open>pd.DataFrame(records)\<close>: one row per dict, one column per key.\<close>

definition DataFrame :: "entry list \<Rightarrow> dataframe" where
  "DataFrame ds =
     \<lparr>nrows = length ds,
      columns = map (\<lambda>k. (k, column_of k ds)) (key_union [] (concat (map (map fst) ds)))\<rparr>"

definition df_empty :: "dataframe \<Rightarrow> bool" where
  "df_empty f = (nrows f = 0 \<or> columns f = [])"

text \<open>\<open>df[k]\<close>; \<open>None\<close> is KeyError.\<close>

definition df_getitem :: "dataframe \<Rightarrow> string \<Rightarrow> cell list option" where
  "df_getitem f k = map_of (columns f) k"

text \<open>\<open>df.iloc[j]\<close>: row \<open>j\<close> as its labelled cells, for \<open>j\<close> below the number of rows.\<close>

definition df_row :: "dataframe \<Rightarrow> nat \<Rightarrow> (string \<times> cell) list" where
  "df_row f j = map (\<lambda>(k, c). (k, c ! j)) (columns f)"

fun set_column :: "string \<Rightarrow> cell list \<Rightarrow> (string \<times> cell list) list \<Rightarrow> (string \<times> cell list) list" where
  "set_column k vs [] = [(k, vs)]"
| "set_column k vs (p # ps) = (if fst p = k then (k, vs) # ps else p # set_column k vs ps)"

text \<open>\<open>df[k] = vs\<close> on a frame that has rows: an existing column is replaced where it
  stands, a new one is added last; a list of the wrong length is ValueError (\<open>None\<close>).\<close>

definition df_setitem :: "dataframe \<Rightarrow> string \<Rightarrow> cell list \<Rightarrow> dataframe option" where
  "df_setitem f k vs =
     (if length vs = nrows f then Some (f\<lparr>columns := set_column k vs (columns f)\<rparr>) else None)"

section \<open>The object store\<close>

text \<open>
  \<open>reactive_value_wrapper\<close> holds one deque object for the lifetime of the process;
  \<open>reactive_value_wrapper.get()\<close> returns that object itself, so the first component of
  the tuple the calculation returns is a reference to it. Every invocation builds a new
  DataFrame object; a reference to a frame is its index in \<open>frames\<close>.
\<close>

datatype deque_ref = WrapperDeque

record store =
  the_deque :: "entry list"
  frames :: "dataframe list"

definition deque_contents :: "store \<Rightarrow> deque_ref \<Rightarrow> entry list" where
  "deque_contents s r = the_deque s"

definition frame_at :: "store \<Rightarrow> nat \<Rightarrow> dataframe option" where
  "frame_at s r = (if r < length (frames s) then Some (frames s ! r) else None)"

text \<open>Column \<open>k\<close> of the frame a reference points to.\<close>

definition frame_column :: "store \<Rightarrow> nat \<Rightarrow> string \<Rightarrow> cell list option" where
  "frame_column s r k = (case frame_at s r of None \<Rightarrow> None | Some f \<Rightarrow> df_getitem f k)"

definition init_store :: store where
  "init_store = \<lparr>the_deque = [], frames = []\<rparr>"

record snapshot =
  deque_snapshot :: deque_ref
  df :: nat
  latest_dictionary_entry :: entry

section \<open>The sampling pipeline\<close>

text \<open>\<open>reactive_value_wrapper.get()\<close>: the reference to the deque; the store is returned as it
  was.\<close>

definition reactive_value_wrapper_get :: "store \<Rightarrow> deque_ref \<times> store" where
  "reactive_value_wrapper_get s = (WrapperDeque, s)"

text \<open>\<open>d.append(e)\<close> on the deque object \<open>d\<close> refers to.\<close>

definition append_entry :: "deque_ref \<Rightarrow> entry \<Rightarrow> store \<Rightarrow> store" where
  "append_entry d e s = s\<lparr>the_deque := deque_append DEQUE_SIZE (deque_contents s d) e\<rparr>"

definition new_dictionary_entry :: "inputs \<Rightarrow> entry" where
  "new_dictionary_entry inp =
     (let temp_antarctic = py_round1 (uniform_1st inp (- 18) (- 16));
          temp_arctic = py_round1 (uniform_2nd inp (- 20) (- 15));
          timestamp = strftime (now inp)
      in [(''temp_antarctic'', PyFloat temp_antarctic),
          (''temp_arctic'', PyFloat temp_arctic),
          (''timestamp'', PyStr timestamp)])"

text \<open>The body of \<open>reactive_calc_combined\<close>: it returns the tuple and the store it leaves.\<close>

definition reactive_calc_combined :: "inputs \<Rightarrow> store \<Rightarrow> snapshot \<times> store" where
  "reactive_calc_combined inp s =
     (let e = new_dictionary_entry inp;
          (d, s1) = reactive_value_wrapper_get s;
          s2 = append_entry d e s1;
          (snapshot_ref, s3) = reactive_value_wrapper_get s2;
          frame = DataFrame (deque_contents s3 snapshot_ref)
      in (\<lparr>deque_snapshot = snapshot_ref, df = length (frames s3), latest_dictionary_entry = e\<rparr>,
          s3\<lparr>frames := frames s3 @ [frame]\<rparr>))"

text \<open>The store after a sequence of invocations, oldest first.\<close>

fun run :: "inputs list \<Rightarrow> store \<Rightarrow> store" where
  "run [] s = s"
| "run (i # is) s = run is (snd (reactive_calc_combined i s))"

section \<open>The reactive runtime\<close>

text \<open>
  The \<open>@reactive.calc()\<close> decorator and \<open>reactive.invalidate_later\<close> belong to the Shiny
  framework, whose code is not part of this repository. The runtime keeps the store and
  the tuple the calculation returned last, if it is still valid.
\<close>

record runtime =
  heap :: store
  cache :: "snapshot option"

definition init_runtime :: runtime where
  "init_runtime = \<lparr>heap = init_store, cache = None\<rparr>"

text \<open>Modelled from the spec: the call \<open>reactive_calc_combined()\<close> through the decorator,
  which is Shiny's and missing here. By the memoization contract of section 4.2, repeated
  reads between triggers return the cached tuple; the first read after an invalidation
  runs the body once and caches what it returned.\<close>

definition reactive_calc_combined_call :: "inputs \<Rightarrow> runtime \<Rightarrow> snapshot \<times> runtime" where
  "reactive_calc_combined_call inp rt =
     (case cache rt of
        Some snap \<Rightarrow> (snap, rt)
      | None \<Rightarrow>
          (let (snap, s) = reactive_calc_combined inp (heap rt)
           in (snap, \<lparr>heap = s, cache = Some snap\<rparr>)))"

text \<open>Modelled from the spec: the timer that \<open>reactive.invalidate_later\<close> sets, which is
  Shiny's and missing here. By section 4.2 it fires \<open>UPDATE_INTERVAL_SECS\<close> after a
  recomputation and invalidates the cached result.\<close>

definition invalidate :: "runtime \<Rightarrow> runtime" where
  "invalidate rt = rt\<lparr>cache := None\<rparr>"

section \<open>Consumers\<close>

definition degree_sign :: string where
  "degree_sign = [CHR 0xB0]"

text \<open>\<open>compare_temperatures\<close> after it has fetched the tuple: only the latest entry is
  used.\<close>

definition compare_temperatures_body :: "entry \<Rightarrow> error + string" where
  "compare_temperatures_body latest =
     (case map_of latest ''temp_arctic'' of
        None \<Rightarrow> Inl KeyError
      | Some temp_arctic \<Rightarrow>
          (case map_of latest ''temp_antarctic'' of
             None \<Rightarrow> Inl KeyError
           | Some temp_antarctic \<Rightarrow>
               (case py_lt temp_arctic temp_antarctic of
                  None \<Rightarrow> Inl TypeError
                | Some True \<Rightarrow>
                    Inr (''Arctic is colder: '' @ py_format temp_arctic @ degree_sign @
                         ''C vs '' @ py_format temp_antarctic @ degree_sign @ ''C'')
                | Some False \<Rightarrow>
                    Inr (''Antarctic is colder: '' @ py_format temp_antarctic @ degree_sign @
                         ''C vs '' @ py_format temp_arctic @ degree_sign @ ''C''))))"

definition compare_temperatures :: "inputs \<Rightarrow> runtime \<Rightarrow> (error + string) \<times> runtime" where
  "compare_temperatures inp rt =
     (let (snap, rt') = reactive_calc_combined_call inp rt
      in (compare_temperatures_body (latest_dictionary_entry snap), rt'))"

subsection \<open>The chart\<close>

text \<open>
  pandas and scipy are not part of the repository, so the two library calls of
  \<open>display_plot\<close> are parameters: \<open>pd.to_datetime\<close> on a column and
  \<open>stats.linregress(x, y)\<close>, of which the code keeps slope and intercept, each a float that
  may be NaN. \<open>None\<close> means the call raised. The theorems about the chart hold for every
  such pair; \<open>pandas_scipy\<close> below is the pair the application runs with.
\<close>

record libs =
  to_datetime :: "cell list \<Rightarrow> cell list option"
  linregress :: "real list \<Rightarrow> cell list \<Rightarrow> (pyfloat \<times> pyfloat) option"

record trace =
  tr_x :: "cell list"
  tr_y :: "cell list"
  tr_mode :: string
  tr_name :: string

record figure =
  fig_title :: string
  fig_traces :: "trace list"
  xaxis_title :: string
  yaxis_title :: string

text \<open>\<open>px.scatter(df, x="timestamp", y="temp_antarctic", ...)\<close>; a missing column is
  ValueError (\<open>None\<close>).\<close>

definition px_scatter :: "dataframe \<Rightarrow> figure option" where
  "px_scatter f =
     (case df_getitem f ''timestamp'' of
        None \<Rightarrow> None
      | Some xs \<Rightarrow>
          (case df_getitem f ''temp_antarctic'' of
             None \<Rightarrow> None
           | Some ys \<Rightarrow>
               Some \<lparr>fig_title = ''Temperature Readings with Regression Line (Antarctic)'',
                     fig_traces = [\<lparr>tr_x = xs, tr_y = ys, tr_mode = ''markers'', tr_name = []\<rparr>],
                     xaxis_title = ''Time'',
                     yaxis_title = ''Temperature ('' @ degree_sign @ ''C)''\<rparr>))"

definition add_scatter :: "figure \<Rightarrow> cell list \<Rightarrow> cell list \<Rightarrow> figure" where
  "add_scatter fig xs ys =
     fig\<lparr>fig_traces := fig_traces fig @
            [\<lparr>tr_x = xs, tr_y = ys, tr_mode = ''lines'', tr_name = ''Regression Line''\<rparr>]\<rparr>"

definition update_layout :: "figure \<Rightarrow> figure" where
  "update_layout fig =
     fig\<lparr>xaxis_title := ''Time'', yaxis_title := ''Temperature ('' @ degree_sign @ ''C)''\<rparr>"

definition put_frame :: "store \<Rightarrow> nat \<Rightarrow> dataframe \<Rightarrow> store" where
  "put_frame s r f = s\<lparr>frames := (frames s)[r := f]\<rparr>"

text \<open>A computed float as a cell of a frame: pandas stores NaN as its missing value.\<close>

fun cell_of_float :: "pyfloat \<Rightarrow> cell" where
  "cell_of_float (Finite r) = Val (PyFloat r)"
| "cell_of_float NotANumber = NaN"

text \<open>\<open>[slope * x + intercept for x in x_vals]\<close>.\<close>

definition best_fit_line :: "pyfloat \<Rightarrow> pyfloat \<Rightarrow> nat list \<Rightarrow> cell list" where
  "best_fit_line slope intercept x_vals =
     map (\<lambda>x. cell_of_float (fadd (fmul slope (Finite (real x))) intercept)) x_vals"

text \<open>
  \<open>display_plot\<close> after it has fetched the tuple. The two column assignments write to the
  frame object the tuple refers to, so the store is returned too; an exception leaves the
  writes made before it in place.
\<close>

definition display_plot_body :: "libs \<Rightarrow> snapshot \<Rightarrow> store \<Rightarrow> (error + figure) \<times> store" where
  "display_plot_body L snap s =
     (case frame_at s (df snap) of
        None \<Rightarrow> (Inl DanglingReference, s)
      | Some f0 \<Rightarrow>
          if \<not> df_empty f0 then
            (case df_getitem f0 ''timestamp'' of
               None \<Rightarrow> (Inl KeyError, s)
             | Some ts \<Rightarrow>
            (case to_datetime L ts of
               None \<Rightarrow> (Inl LibraryError, s)
             | Some ts' \<Rightarrow>
            (case df_setitem f0 ''timestamp'' ts' of
               None \<Rightarrow> (Inl ValueError, s)
             | Some f1 \<Rightarrow>
            (let s1 = put_frame s (df snap) f1 in
            (case px_scatter f1 of
               None \<Rightarrow> (Inl ValueError, s1)
             | Some fig \<Rightarrow>
            (let x_vals = [0..<nrows f1] in
            (case df_getitem f1 ''temp_antarctic'' of
               None \<Rightarrow> (Inl KeyError, s1)
             | Some y_vals \<Rightarrow>
            (case linregress L (map real x_vals) y_vals of
               None \<Rightarrow> (Inl LibraryError, s1)
             | Some (slope, intercept) \<Rightarrow>
            (case df_setitem f1 ''best_fit_line'' (best_fit_line slope intercept x_vals) of
               None \<Rightarrow> (Inl ValueError, s1)
             | Some f2 \<Rightarrow>
            (let s2 = put_frame s1 (df snap) f2 in
            (case df_getitem f2 ''timestamp'' of
               None \<Rightarrow> (Inl KeyError, s2)
             | Some line_x \<Rightarrow>
            (case df_getitem f2 ''best_fit_line'' of
               None \<Rightarrow> (Inl KeyError, s2)
             | Some line_y \<Rightarrow>
                 (Inr (update_layout (add_scatter fig line_x line_y)), s2)))))))))))))
          else (Inl UnboundLocalError, s))"

definition display_plot :: "libs \<Rightarrow> inputs \<Rightarrow> runtime \<Rightarrow> (error + figure) \<times> runtime" where
  "display_plot L inp rt =
     (let (snap, rt') = reactive_calc_combined_call inp rt;
          (res, s) = display_plot_body L snap (heap rt')
      in (res, rt'\<lparr>heap := s\<rparr>))"

section \<open>Well-formed states\<close>

text \<open>A dict as line 68 of app.py builds it: the three keys in that order, two floats and
  a string.\<close>

fun wf_entry :: "entry \<Rightarrow> bool" where
  "wf_entry [(k1, PyFloat a), (k2, PyFloat b), (k3, PyStr t)] =
     (k1 = ''temp_antarctic'' \<and> k2 = ''temp_arctic'' \<and> k3 = ''timestamp'')"
| "wf_entry _ = False"

definition wf_store :: "store \<Rightarrow> bool" where
  "wf_store s = list_all wf_entry (the_deque s)"

text \<open>The cached tuple, when there is one, refers to a frame of the store that has rows
  and columns.\<close>

definition cache_ok :: "runtime \<Rightarrow> bool" where
  "cache_ok rt =
     (case cache rt of
        None \<Rightarrow> True
      | Some snap \<Rightarrow>
          (case frame_at (heap rt) (df snap) of None \<Rightarrow> False | Some f \<Rightarrow> \<not> df_empty f))"

text \<open>What the chart may do to the store: nothing, or replace the frame at one reference by
  a frame with the same rows that differs at most in the two columns the chart assigns.\<close>

inductive frame_written :: "store \<Rightarrow> nat \<Rightarrow> store \<Rightarrow> bool" where
  unchanged: "frame_written s r s"
| written:
    "frame_at s r = Some f \<Longrightarrow> nrows f' = nrows f \<Longrightarrow> columns f' \<noteq> [] \<Longrightarrow>
     (\<forall>k. k \<noteq> ''timestamp'' \<and> k \<noteq> ''best_fit_line'' \<longrightarrow> df_getitem f' k = df_getitem f k) \<Longrightarrow>
     frame_written s r (put_frame s r f')"

section \<open>The libraries the chart calls\<close>

text \<open>
  \<open>pd.to_datetime\<close> on the strings the pipeline writes. A string in the format of
  \<open>strftime\<close> above, \<open>YYYY-MM-DD HH:MM:SS\<close>, is read field by field into a datetime
  without microseconds. The other spellings pandas accepts are not covered, and neither is
  the length of each month: \<open>None\<close> for them.
\<close>

definition digit_val :: "char \<Rightarrow> nat option" where
  "digit_val c =
     map_of [(CHR ''0'', 0), (CHR ''1'', 1), (CHR ''2'', 2), (CHR ''3'', 3), (CHR ''4'', 4),
             (CHR ''5'', 5), (CHR ''6'', 6), (CHR ''7'', 7), (CHR ''8'', 8), (CHR ''9'', 9)] c"

definition two_digits :: "char \<Rightarrow> char \<Rightarrow> nat option" where
  "two_digits a b =
     (case digit_val a of None \<Rightarrow> None
      | Some x \<Rightarrow> (case digit_val b of None \<Rightarrow> None | Some y \<Rightarrow> Some (10 * x + y)))"

definition four_digits :: "char \<Rightarrow> char \<Rightarrow> char \<Rightarrow> char \<Rightarrow> nat option" where
  "four_digits a b c d =
     (case two_digits a b of None \<Rightarrow> None
      | Some x \<Rightarrow> (case two_digits c d of None \<Rightarrow> None | Some y \<Rightarrow> Some (100 * x + y)))"

definition valid_clock :: "datetime \<Rightarrow> bool" where
  "valid_clock dt =
     (1 \<le> dt_year dt \<and> dt_year dt \<le> 9999 \<and> 1 \<le> dt_month dt \<and> dt_month dt \<le> 12 \<and>
      1 \<le> dt_day dt \<and> dt_day dt \<le> 31 \<and> dt_hour dt < 24 \<and> dt_minute dt < 60 \<and>
      dt_second dt < 60)"

fun parse_datetime :: "string \<Rightarrow> datetime option" where
  "parse_datetime [y1, y2, y3, y4, s1, m1, m2, s2, d1, d2, s3, h1, h2, s4, n1, n2, s5, c1, c2] =
     (if s1 = CHR ''-'' \<and> s2 = CHR ''-'' \<and> s3 = CHR '' '' \<and> s4 = CHR '':'' \<and> s5 = CHR '':'' then
        (case four_digits y1 y2 y3 y4 of None \<Rightarrow> None | Some y \<Rightarrow>
        (case two_digits m1 m2 of None \<Rightarrow> None | Some mo \<Rightarrow>
        (case two_digits d1 d2 of None \<Rightarrow> None | Some d \<Rightarrow>
        (case two_digits h1 h2 of None \<Rightarrow> None | Some h \<Rightarrow>
        (case two_digits n1 n2 of None \<Rightarrow> None | Some mi \<Rightarrow>
        (case two_digits c1 c2 of None \<Rightarrow> None | Some se \<Rightarrow>
           (let dt = \<lparr>dt_year = y, dt_month = mo, dt_day = d, dt_hour = h, dt_minute = mi,
                      dt_second = se, dt_microsecond = 0\<rparr>
            in if valid_clock dt then Some dt else None)))))))
      else None)"
| "parse_datetime _ = None"

text \<open>A cell that is a datetime already stays as it is and a missing value stays missing.
  pandas reads a float as nanoseconds since 1970; no frame of this application has a float
  in its timestamp column, and that case is left out (\<open>None\<close>).\<close>

fun to_datetime_cell :: "cell \<Rightarrow> cell option" where
  "to_datetime_cell (Val (PyStr s)) = map_option Timestamp (parse_datetime s)"
| "to_datetime_cell (Timestamp t) = Some (Timestamp t)"
| "to_datetime_cell NaN = Some NaN"
| "to_datetime_cell (Val (PyFloat x)) = None"

definition pandas_to_datetime :: "cell list \<Rightarrow> cell list option" where
  "pandas_to_datetime cs = those (map to_datetime_cell cs)"

text \<open>
  \<open>stats.linregress(x, y)\<close>, slope and intercept. The y values are read as floats, a string
  or a datetime raising. scipy raises on empty input, on two or more identical x values
  and on inputs of different lengths. Otherwise, with \<open>ssxm\<close> the mean squared deviation of
  x and \<open>ssxym\<close> the mean product of the deviations of x and y, the slope is
  \<open>ssxym / ssxm\<close> and the intercept \<open>ymean - slope * xmean\<close>. For a single point
  \<open>ssxm\<close> and \<open>ssxym\<close> are both zero and the division gives NaN, as it does when a y value
  is NaN. On finite values the arithmetic is that of the reals.
\<close>

fun float_of_cell :: "cell \<Rightarrow> pyfloat option" where
  "float_of_cell (Val (PyFloat x)) = Some (Finite x)"
| "float_of_cell NaN = Some NotANumber"
| "float_of_cell _ = None"

fun finite_values :: "pyfloat list \<Rightarrow> real list option" where
  "finite_values [] = Some []"
| "finite_values (Finite x # ys) = map_option (Cons x) (finite_values ys)"
| "finite_values (NotANumber # ys) = None"

definition mean :: "real list \<Rightarrow> real" where
  "mean xs = sum_list xs / real (length xs)"

definition scipy_linregress :: "real list \<Rightarrow> cell list \<Rightarrow> (pyfloat \<times> pyfloat) option" where
  "scipy_linregress x cs =
     (case those (map float_of_cell cs) of
        None \<Rightarrow> None
      | Some y \<Rightarrow>
          if x = [] \<or> y = [] then None
          else if 1 < length x \<and> list_all (\<lambda>v. v = hd x) x then None
          else if length x \<noteq> length y then None
          else
            (case finite_values y of
               None \<Rightarrow> Some (NotANumber, NotANumber)
             | Some ys \<Rightarrow>
                 (let xmean = mean x;
                      ymean = mean ys;
                      ssxm = mean (map (\<lambda>v. (v - xmean) * (v - xmean)) x);
                      ssxym = mean (map (\<lambda>(v, w). (v - xmean) * (w - ymean)) (zip x ys))
                  in if ssxm = 0 then Some (NotANumber, NotANumber)
                     else Some (Finite (ssxym / ssxm), Finite (ymean - ssxym / ssxm * xmean)))))"

text \<open>The two library calls as the application makes them.\<close>

definition pandas_scipy :: libs where
  "pandas_scipy = \<lparr>to_datetime = pandas_to_datetime, linregress = scipy_linregress\<rparr>"

section \<open>Sample inputs\<close>

text \<open>Three ticks of a session, three seconds apart. The generator's answers are
  \<open>a + (b - a) * r\<close> for draws \<open>r\<close> that make every sum a double: the Antarctic draws are
  -17.375, -16.75 and -17.0, the Arctic draws -18.75, -16.25 and -17.5.\<close>

definition sample_now :: datetime where
  "sample_now = \<lparr>dt_year = 2024, dt_month = 6, dt_day = 9, dt_hour = 14, dt_minute = 5,
                  dt_second = 7, dt_microsecond = 123456\<rparr>"

definition sample_input :: inputs where
  "sample_input =
     \<lparr>uniform_1st = (\<lambda>a b. a + (b - a) * (5 / 16)),
      uniform_2nd = (\<lambda>a b. a + (b - a) * (1 / 4)),
      now = sample_now\<rparr>"

definition sample_input_2 :: inputs where
  "sample_input_2 =
     \<lparr>uniform_1st = (\<lambda>a b. a + (b - a) * (5 / 8)),
      uniform_2nd = (\<lambda>a b. a + (b - a) * (3 / 4)),
      now = sample_now\<lparr>dt_second := 10, dt_microsecond := 234567\<rparr>\<rparr>"

definition sample_input_3 :: inputs where
  "sample_input_3 =
     \<lparr>uniform_1st = (\<lambda>a b. a + (b - a) * (1 / 2)),
      uniform_2nd = (\<lambda>a b. a + (b - a) * (1 / 2)),
      now = sample_now\<lparr>dt_second := 13, dt_microsecond := 345678\<rparr>\<rparr>"

text \<open>The input of the \<open>k\<close>-th tick of a longer session with the draws of the first.\<close>

definition sample_tick :: "nat \<Rightarrow> inputs" where
  "sample_tick k = sample_input\<lparr>now := sample_now\<lparr>dt_second := 7 + 3 * k\<rparr>\<rparr>"

text \<open>The tuple and the store after the first tick, and the store after the chart has been
  drawn from that tuple.\<close>

definition sample_snapshot :: snapshot where
  "sample_snapshot = fst (reactive_calc_combined sample_input init_store)"

definition sample_store :: store where
  "sample_store = snd (reactive_calc_combined sample_input init_store)"

definition sample_plotted :: store where
  "sample_plotted = snd (display_plot_body pandas_scipy sample_snapshot sample_store)"

text \<open>The store after the second tick; the tuple and the store after the third, and the
  store after the chart has been drawn from the third tuple.\<close>

definition sample_store_2 :: store where
  "sample_store_2 = snd (reactive_calc_combined sample_input_2 sample_store)"

definition sample_snapshot_3 :: snapshot where
  "sample_snapshot_3 = fst (reactive_calc_combined sample_input_3 sample_store_2)"

definition sample_store_3 :: store where
  "sample_store_3 = snd (reactive_calc_combined sample_input_3 sample_store_2)"

definition sample_plotted_3 :: store where
  "sample_plotted_3 = snd (display_plot_body pandas_scipy sample_snapshot_3 sample_store_3)"

section \<open>The history buffer\<close>

lemma deque_append_drop:
  "deque_append m (drop (length xs - m) xs) x = drop (length (xs @ [x]) - m) (xs @ [x])"
proof (cases "length xs < m")
  case True
  then show ?thesis by (simp add: deque_append_def)
next
  case False
  then have "drop (length xs - m) xs @ [x] = drop (length xs - m) (xs @ [x])" by simp
  moreover have "tl (drop (length xs - m) (xs @ [x])) = drop (Suc (length xs - m)) (xs @ [x])"
    by (simp only: drop_Suc tl_drop)
  moreover from False have "Suc (length xs - m) = length (xs @ [x]) - m" by simp
  ultimately show ?thesis using False by (simp add: deque_append_def Let_def)
qed

text \<open>The pipeline's body in one step: the tuple and the store it leaves.\<close>

lemma reactive_calc_combined_eq:
  "reactive_calc_combined inp s =
     (\<lparr>deque_snapshot = WrapperDeque, df = length (frames s),
       latest_dictionary_entry = new_dictionary_entry inp\<rparr>,
      \<lparr>the_deque = deque_append DEQUE_SIZE (the_deque s) (new_dictionary_entry inp),
       frames = frames s @
         [DataFrame (deque_append DEQUE_SIZE (the_deque s) (new_dictionary_entry inp))]\<rparr>)"
  by (simp add: reactive_calc_combined_def reactive_value_wrapper_get_def append_entry_def
      deque_contents_def Let_def)

lemma the_deque_step:
  "the_deque (snd (reactive_calc_combined i s)) =
     deque_append DEQUE_SIZE (the_deque s) (new_dictionary_entry i)"
  by (simp add: reactive_calc_combined_eq)

lemma the_deque_run_gen:
  "the_deque s = drop (length xs - DEQUE_SIZE) xs \<Longrightarrow>
   the_deque (run inps s) =
     drop (length (xs @ map new_dictionary_entry inps) - DEQUE_SIZE)
          (xs @ map new_dictionary_entry inps)"
proof (induction inps arbitrary: s xs)
  case Nil
  then show ?case by simp
next
  case (Cons i inps)
  have "the_deque (snd (reactive_calc_combined i s)) =
          drop (length (xs @ [new_dictionary_entry i]) - DEQUE_SIZE) (xs @ [new_dictionary_entry i])"
    unfolding the_deque_step Cons.prems by (rule deque_append_drop)
  from Cons.IH [OF this] show ?case by simp
qed

lemma the_deque_run:
  "the_deque (run inps init_store) =
     drop (length inps - DEQUE_SIZE) (map new_dictionary_entry inps)"
  using the_deque_run_gen [of init_store "[]" inps] by (simp add: init_store_def)

lemma run_snoc: "run (inps @ [i]) s = snd (reactive_calc_combined i (run inps s))"
  by (induction inps arbitrary: s) auto

lemma deque_append_nonempty: "0 < m \<Longrightarrow> deque_append m d x \<noteq> []"
  by (cases d) (auto simp: deque_append_def Let_def)

lemma last_deque_append: "0 < m \<Longrightarrow> last (deque_append m d x) = x"
  by (cases d) (auto simp: deque_append_def Let_def last_tl)

text \<open>
  C1. Started on the empty deque, after \<open>N\<close> invocations of the pipeline the buffer holds
  \<open>min N 5\<close> readings, namely the last five generated (all of them while \<open>N \<le> 5\<close>), in the
  order they were appended; and one more invocation appends exactly its own new reading,
  dropping the oldest one once five are held.
\<close>

theorem history_buffer_fifo:
  "length (the_deque (run inps init_store)) = min (length inps) 5 \<and>
   the_deque (run inps init_store) = drop (length inps - 5) (map new_dictionary_entry inps) \<and>
   the_deque (run (inps @ [i]) init_store) =
     (if length inps < 5 then the_deque (run inps init_store)
      else tl (the_deque (run inps init_store))) @ [new_dictionary_entry i]"
proof -
  have a: "the_deque (run inps init_store) = drop (length inps - 5) (map new_dictionary_entry inps)"
    using the_deque_run [of inps] by (simp add: DEQUE_SIZE_def)
  have b: "length (the_deque (run inps init_store)) = min (length inps) 5"
    unfolding a by simp
  have "the_deque (run (inps @ [i]) init_store) =
          deque_append 5 (the_deque (run inps init_store)) (new_dictionary_entry i)"
    by (simp add: run_snoc the_deque_step DEQUE_SIZE_def)
  also have "\<dots> = (if length inps < 5 then the_deque (run inps init_store)
      else tl (the_deque (run inps init_store))) @ [new_dictionary_entry i]"
    using b by (cases "the_deque (run inps init_store)") (auto simp: deque_append_def Let_def)
  finally show ?thesis using a b by simp
qed

theorem history_buffer_fifo_witness:
  "length (the_deque (run (map sample_tick [0, 1, 2, 3, 4, 5, 6]) init_store)) = 5 \<and>
   the_deque (run (map sample_tick [0, 1, 2, 3, 4, 5, 6]) init_store) =
     map new_dictionary_entry (map sample_tick [2, 3, 4, 5, 6])"
  using history_buffer_fifo [of "map sample_tick [0, 1, 2, 3, 4, 5, 6]" "sample_tick 7"]
  by simp

text \<open>
  C4. After an invocation of the pipeline the buffer is not empty, its last element is the
  reading this invocation generated, and the third component of the returned tuple is that
  same reading.
\<close>

theorem newest_reading_is_tail_and_latest:
  "deque_contents (snd (reactive_calc_combined i s))
       (deque_snapshot (fst (reactive_calc_combined i s))) \<noteq> [] \<and>
   last (deque_contents (snd (reactive_calc_combined i s))
       (deque_snapshot (fst (reactive_calc_combined i s)))) = new_dictionary_entry i \<and>
   latest_dictionary_entry (fst (reactive_calc_combined i s)) = new_dictionary_entry i"
proof -
  have "deque_contents (snd (reactive_calc_combined i s))
          (deque_snapshot (fst (reactive_calc_combined i s))) =
        deque_append DEQUE_SIZE (the_deque s) (new_dictionary_entry i)"
    by (simp add: deque_contents_def the_deque_step)
  moreover have "0 < DEQUE_SIZE" by (simp add: DEQUE_SIZE_def)
  moreover have "latest_dictionary_entry (fst (reactive_calc_combined i s)) = new_dictionary_entry i"
    by (simp add: reactive_calc_combined_eq)
  ultimately show ?thesis by (simp add: deque_append_nonempty last_deque_append)
qed

section \<open>Generation of a reading\<close>

lemma round_half_even_bounds:
  assumes "of_int a \<le> y" "y \<le> of_int b"
  shows "a \<le> round_half_even y \<and> round_half_even y \<le> b"
proof -
  have fa: "a \<le> \<lfloor>y\<rfloor>" using assms(1) by (simp add: le_floor_iff)
  have fb: "\<lfloor>y\<rfloor> \<le> b" using assms(2) by (simp add: floor_le_iff)
  have up: "\<lfloor>y\<rfloor> + 1 \<le> b" if "of_int \<lfloor>y\<rfloor> < y"
  proof -
    from that assms(2) have "of_int \<lfloor>y\<rfloor> < (of_int b :: real)" by linarith
    then have "\<lfloor>y\<rfloor> < b" by simp
    then show ?thesis by simp
  qed
  show ?thesis
    using fa fb up by (auto simp: round_half_even_def Let_def)
qed

lemma round_half_even_near: "\<bar>of_int (round_half_even y) - y\<bar> \<le> 1 / 2"
proof -
  have "of_int \<lfloor>y\<rfloor> \<le> y" "y < of_int \<lfloor>y\<rfloor> + 1" by linarith+
  then show ?thesis by (auto simp: round_half_even_def Let_def)
qed

lemma py_round1_bounds:
  assumes "of_int a \<le> x" "x \<le> of_int b"
  shows "of_int a \<le> py_round1 x \<and> py_round1 x \<le> of_int b"
proof -
  have "of_int (a * 10) \<le> x * 10" "x * 10 \<le> of_int (b * 10)" using assms by simp_all
  from round_half_even_bounds [OF this]
  have "a * 10 \<le> round_half_even (x * 10)" "round_half_even (x * 10) \<le> b * 10" by simp_all
  then have "of_int (a * 10) \<le> (of_int (round_half_even (x * 10)) :: real)"
     "(of_int (round_half_even (x * 10)) :: real) \<le> of_int (b * 10)"
    by (simp_all only: of_int_le_iff)
  then show ?thesis by (simp add: py_round1_def)
qed

lemma py_round1_tenths: "\<exists>k::int. py_round1 x = of_int k / 10"
  by (auto simp: py_round1_def)

lemma py_round1_near: "\<bar>py_round1 x - x\<bar> \<le> 1 / 20"
proof -
  define k :: real where "k = of_int (round_half_even (x * 10))"
  have h: "\<bar>k - x * 10\<bar> \<le> 1 / 2" unfolding k_def by (rule round_half_even_near)
  have e: "py_round1 x - x = (k - x * 10) / 10"
    by (simp add: py_round1_def k_def diff_divide_distrib)
  have "\<bar>(k - x * 10) / 10\<bar> = \<bar>k - x * 10\<bar> / 10" by simp
  also have "\<dots> \<le> 1 / 20" using h by simp
  finally show ?thesis unfolding e .
qed

lemma strftime_microsecond: "strftime (dt\<lparr>dt_microsecond := m\<rparr>) = strftime dt"
  by (simp add: strftime_def)

lemma sample_entry:
  "new_dictionary_entry sample_input =
     [(''temp_antarctic'', PyFloat (- 174 / 10)), (''temp_arctic'', PyFloat (- 188 / 10)),
      (''timestamp'', PyStr ''2024-06-09 14:05:07'')]"
  by (simp add: new_dictionary_entry_def sample_input_def py_round1_def
      round_half_even_def Let_def strftime_def sample_now_def zfill_def show_nat.simps
      digit_char_def)

lemma sample_entry_2:
  "new_dictionary_entry sample_input_2 =
     [(''temp_antarctic'', PyFloat (- 168 / 10)), (''temp_arctic'', PyFloat (- 162 / 10)),
      (''timestamp'', PyStr ''2024-06-09 14:05:10'')]"
  by (simp add: new_dictionary_entry_def sample_input_2_def py_round1_def
      round_half_even_def Let_def strftime_def sample_now_def zfill_def show_nat.simps
      digit_char_def)

lemma sample_entry_3:
  "new_dictionary_entry sample_input_3 =
     [(''temp_antarctic'', PyFloat (- 17)), (''temp_arctic'', PyFloat (- 175 / 10)),
      (''timestamp'', PyStr ''2024-06-09 14:05:13'')]"
  by (simp add: new_dictionary_entry_def sample_input_3_def py_round1_def
      round_half_even_def Let_def strftime_def sample_now_def zfill_def show_nat.simps
      digit_char_def)

text \<open>
  C5. The generated reading holds, under \<open>temp_antarctic\<close>, what
  \<open>random.uniform(-18, -16)\<close> returned at the first call, rounded to one decimal place,
  and under \<open>temp_arctic\<close> what \<open>random.uniform(-20, -15)\<close> returned at the second,
  rounded likewise; its timestamp is the invocation's clock formatted to the second, the
  microseconds not reaching the reading. With the library returning a value between its
  two arguments, the Antarctic temperature lies in \<open>[-18, -16]\<close> and the Arctic one in
  \<open>[-20, -15]\<close>; each is a whole number of tenths within 0.05 of its draw.
\<close>

theorem generated_reading_in_range:
  assumes "\<And>a b. a \<le> b \<Longrightarrow> a \<le> uniform_1st i a b \<and> uniform_1st i a b \<le> b"
    and "\<And>a b. a \<le> b \<Longrightarrow> a \<le> uniform_2nd i a b \<and> uniform_2nd i a b \<le> b"
  shows "new_dictionary_entry i =
           [(''temp_antarctic'', PyFloat (py_round1 (uniform_1st i (- 18) (- 16)))),
            (''temp_arctic'', PyFloat (py_round1 (uniform_2nd i (- 20) (- 15)))),
            (''timestamp'', PyStr (strftime (now i)))] \<and>
         - 18 \<le> py_round1 (uniform_1st i (- 18) (- 16)) \<and>
         py_round1 (uniform_1st i (- 18) (- 16)) \<le> - 16 \<and>
         - 20 \<le> py_round1 (uniform_2nd i (- 20) (- 15)) \<and>
         py_round1 (uniform_2nd i (- 20) (- 15)) \<le> - 15 \<and>
         (\<exists>k::int. py_round1 (uniform_1st i (- 18) (- 16)) = of_int k / 10) \<and>
         (\<exists>k::int. py_round1 (uniform_2nd i (- 20) (- 15)) = of_int k / 10) \<and>
         \<bar>py_round1 (uniform_1st i (- 18) (- 16)) - uniform_1st i (- 18) (- 16)\<bar> \<le> 1 / 20 \<and>
         \<bar>py_round1 (uniform_2nd i (- 20) (- 15)) - uniform_2nd i (- 20) (- 15)\<bar> \<le> 1 / 20 \<and>
         new_dictionary_entry (i\<lparr>now := (now i)\<lparr>dt_microsecond := m\<rparr>\<rparr>) = new_dictionary_entry i"
proof -
  let ?ua = "uniform_1st i (- 18) (- 16)"
  let ?ub = "uniform_2nd i (- 20) (- 15)"
  have ua: "of_int (- 18) \<le> ?ua \<and> ?ua \<le> of_int (- 16)"
    using assms(1) [of "- 18" "- 16"] by simp
  have ub: "of_int (- 20) \<le> ?ub \<and> ?ub \<le> of_int (- 15)"
    using assms(2) [of "- 20" "- 15"] by simp
  have a: "- 18 \<le> py_round1 ?ua \<and> py_round1 ?ua \<le> - 16"
    using py_round1_bounds [of "- 18" ?ua "- 16"] ua by simp
  have b: "- 20 \<le> py_round1 ?ub \<and> py_round1 ?ub \<le> - 15"
    using py_round1_bounds [of "- 20" ?ub "- 15"] ub by simp
  have e: "new_dictionary_entry i =
             [(''temp_antarctic'', PyFloat (py_round1 ?ua)), (''temp_arctic'', PyFloat (py_round1 ?ub)),
              (''timestamp'', PyStr (strftime (now i)))]"
    by (simp add: new_dictionary_entry_def Let_def)
  have u: "new_dictionary_entry (i\<lparr>now := (now i)\<lparr>dt_microsecond := m\<rparr>\<rparr>) = new_dictionary_entry i"
    by (simp add: new_dictionary_entry_def Let_def strftime_microsecond)
  from a have a1: "- 18 \<le> py_round1 ?ua" and a2: "py_round1 ?ua \<le> - 16" by simp_all
  from b have b1: "- 20 \<le> py_round1 ?ub" and b2: "py_round1 ?ub \<le> - 15" by simp_all
  show ?thesis
    by (intro conjI e a1 a2 b1 b2 py_round1_tenths py_round1_near u)
qed

lemma affine_draw_in_range:
  assumes "(a::real) \<le> b" "0 \<le> r" "r \<le> 1"
  shows "a \<le> a + (b - a) * r \<and> a + (b - a) * r \<le> b"
proof -
  have "0 \<le> (b - a) * r" using assms by simp
  moreover have "(b - a) * r \<le> (b - a) * 1" using assms by (intro mult_left_mono) auto
  ultimately show ?thesis by simp
qed

theorem generated_reading_in_range_witness:
  "new_dictionary_entry sample_input =
     [(''temp_antarctic'', PyFloat (- 174 / 10)), (''temp_arctic'', PyFloat (- 188 / 10)),
      (''timestamp'', PyStr ''2024-06-09 14:05:07'')] \<and>
   uniform_1st sample_input (- 18) (- 16) = - 17375 / 1000 \<and>
   uniform_2nd sample_input (- 20) (- 15) = - 1875 / 100 \<and>
   py_round1 (uniform_1st sample_input (- 18) (- 16)) = - 174 / 10 \<and>
   py_round1 (uniform_2nd sample_input (- 20) (- 15)) = - 188 / 10"
proof -
  have c1: "a \<le> uniform_1st sample_input a b \<and> uniform_1st sample_input a b \<le> b" if "a \<le> b" for a b
    using affine_draw_in_range [OF that, of "5 / 16"] by (simp add: sample_input_def)
  have c2: "a \<le> uniform_2nd sample_input a b \<and> uniform_2nd sample_input a b \<le> b" if "a \<le> b" for a b
    using affine_draw_in_range [OF that, of "1 / 4"] by (simp add: sample_input_def)
  have e: "new_dictionary_entry sample_input =
           [(''temp_antarctic'', PyFloat (py_round1 (uniform_1st sample_input (- 18) (- 16)))),
            (''temp_arctic'', PyFloat (py_round1 (uniform_2nd sample_input (- 20) (- 15)))),
            (''timestamp'', PyStr (strftime (now sample_input)))]"
    by (rule generated_reading_in_range [OF c1 c2, THEN conjunct1])
  have u: "uniform_1st sample_input (- 18) (- 16) = - 17375 / 1000"
    "uniform_2nd sample_input (- 20) (- 15) = - 1875 / 100"
    by (simp_all add: sample_input_def)
  have r: "py_round1 (- 17375 / 1000) = - 174 / 10" "py_round1 (- 1875 / 100) = - 188 / 10"
    by (simp_all add: py_round1_def round_half_even_def Let_def)
  have t: "strftime (now sample_input) = ''2024-06-09 14:05:07''"
    by (simp add: strftime_def sample_input_def sample_now_def zfill_def show_nat.simps digit_char_def)
  show ?thesis
    using e by (simp only: u r t)
qed

section \<open>Comparison of the two temperatures\<close>

text \<open>
  C3. The comparison text depends only on the latest reading of the tuple. It names the
  Arctic when its temperature is strictly lower and the Antarctic otherwise, a tie
  included, and prints both values: for Arctic -19.0 against Antarctic -17.0 it names the
  Arctic, for -17.0 against -17.0 the Antarctic.
\<close>

theorem compare_temperatures_names_colder:
  "compare_temperatures_body
     [(''temp_antarctic'', PyFloat antarctic), (''temp_arctic'', PyFloat arctic),
      (''timestamp'', PyStr t)] =
     Inr (if arctic < antarctic
          then ''Arctic is colder: '' @ float_repr arctic @ degree_sign @ ''C vs '' @
               float_repr antarctic @ degree_sign @ ''C''
          else ''Antarctic is colder: '' @ float_repr antarctic @ degree_sign @ ''C vs '' @
               float_repr arctic @ degree_sign @ ''C'') \<and>
   compare_temperatures_body
     [(''temp_antarctic'', PyFloat (- 17)), (''temp_arctic'', PyFloat (- 19)),
      (''timestamp'', PyStr t)] =
     Inr (''Arctic is colder: -19.0'' @ [CHR 0xB0] @ ''C vs -17.0'' @ [CHR 0xB0] @ ''C'') \<and>
   compare_temperatures_body
     [(''temp_antarctic'', PyFloat (- 17)), (''temp_arctic'', PyFloat (- 17)),
      (''timestamp'', PyStr t)] =
     Inr (''Antarctic is colder: -17.0'' @ [CHR 0xB0] @ ''C vs -17.0'' @ [CHR 0xB0] @ ''C'') \<and>
   fst (compare_temperatures inp rt) =
     compare_temperatures_body
       (latest_dictionary_entry (fst (reactive_calc_combined_call inp rt)))"
proof -
  have g: "compare_temperatures_body
     [(''temp_antarctic'', PyFloat antarctic), (''temp_arctic'', PyFloat arctic),
      (''timestamp'', PyStr t)] =
     Inr (if arctic < antarctic
          then ''Arctic is colder: '' @ float_repr arctic @ degree_sign @ ''C vs '' @
               float_repr antarctic @ degree_sign @ ''C''
          else ''Antarctic is colder: '' @ float_repr antarctic @ degree_sign @ ''C vs '' @
               float_repr arctic @ degree_sign @ ''C'')" for antarctic arctic
    by (simp add: compare_temperatures_body_def)
  have r19: "float_repr (- 19) = ''-19.0''" and r17: "float_repr (- 17) = ''-17.0''"
    by (simp_all add: float_repr_def show_nat.simps digit_char_def Let_def)
  have c: "fst (compare_temperatures inp rt) =
     compare_temperatures_body
       (latest_dictionary_entry (fst (reactive_calc_combined_call inp rt)))"
    by (simp add: compare_temperatures_def split_beta)
  show ?thesis
    unfolding g using c by (simp add: r19 r17 degree_sign_def)
qed

section \<open>Reading back a formatted timestamp\<close>

lemma digit_val_digit_char: "d < 10 \<Longrightarrow> digit_val (digit_char d) = Some d"
proof -
  assume "d < 10"
  then have "d = 0 \<or> d = 1 \<or> d = 2 \<or> d = 3 \<or> d = 4 \<or> d = 5 \<or> d = 6 \<or> d = 7 \<or> d = 8 \<or> d = 9"
    by arith
  then show ?thesis
    by (elim disjE) (simp_all add: digit_char_def digit_val_def)
qed

lemma two_digits_of: "n < 100 \<Longrightarrow> two_digits (digit_char (n div 10)) (digit_char (n mod 10)) = Some n"
  by (simp add: two_digits_def digit_val_digit_char)

lemma replicate_small:
  "replicate 3 c = [c, c, c]" "replicate 2 c = [c, c]" "replicate (Suc 0) c = [c]"
  by (simp_all add: numeral_3_eq_3 numeral_2_eq_2)

lemma zfill2_show_nat:
  assumes "n < 100"
  shows "zfill 2 (show_nat n) = [digit_char (n div 10), digit_char (n mod 10)]"
proof (cases "n < 10")
  case True
  then have "show_nat n = [digit_char n]" by (simp add: show_nat.simps)
  moreover have "digit_char 0 = CHR ''0''" by (simp add: digit_char_def)
  ultimately show ?thesis using True by (simp add: zfill_def replicate_small)
next
  case False
  with assms have "n div 10 < 10" by simp
  then have "show_nat (n div 10) = [digit_char (n div 10)]" by (simp add: show_nat.simps)
  then have "show_nat n = [digit_char (n div 10), digit_char (n mod 10)]"
    using False by (subst show_nat.simps) simp
  then show ?thesis by (simp add: zfill_def)
qed

lemma four_digits_of:
  assumes "n < 10000"
  shows "four_digits (digit_char (n div 1000)) (digit_char (n div 100 mod 10))
           (digit_char (n div 10 mod 10)) (digit_char (n mod 10)) = Some n"
proof -
  have a: "n div 1000 < 10" "n div 100 mod 10 < 10" "n div 10 mod 10 < 10" "n mod 10 < 10"
    using assms by simp_all
  define q1 q2 q3 r0 r1 r2 where "q1 = n div 10" and "q2 = n div 100" and "q3 = n div 1000"
    and "r0 = n mod 10" and "r1 = n div 10 mod 10" and "r2 = n div 100 mod 10"
  have "n = 10 * q1 + r0" by (simp add: q1_def r0_def)
  moreover have "q1 = 10 * q2 + r1"
    using div_mult_mod_eq [of "n div 10" 10] by (simp add: q1_def q2_def r1_def div_mult2_eq [symmetric])
  moreover have "q2 = 10 * q3 + r2"
    using div_mult_mod_eq [of "n div 100" 10] by (simp add: q2_def q3_def r2_def div_mult2_eq [symmetric])
  ultimately have "100 * (10 * q3 + r2) + (10 * r1 + r0) = n" by simp
  then have "100 * (10 * (n div 1000) + n div 100 mod 10) + (10 * (n div 10 mod 10) + n mod 10) = n"
    by (simp only: q3_def r2_def r1_def r0_def)
  then show ?thesis
    by (simp add: four_digits_def two_digits_def digit_val_digit_char a)
qed

lemma zfill4_show_nat:
  assumes "n < 10000"
  shows "zfill 4 (show_nat n) =
     [digit_char (n div 1000), digit_char (n div 100 mod 10), digit_char (n div 10 mod 10),
      digit_char (n mod 10)]"
proof -
  have z: "digit_char 0 = CHR ''0''" by (simp add: digit_char_def)
  consider "n < 10" | "10 \<le> n" "n < 100" | "100 \<le> n" "n < 1000" | "1000 \<le> n" by linarith
  then show ?thesis
  proof cases
    case 1
    then have "show_nat n = [digit_char n]" by (simp add: show_nat.simps)
    then show ?thesis using 1 by (simp add: zfill_def z replicate_small)
  next
    case 2
    then have "show_nat (n div 10) = [digit_char (n div 10)]" by (simp add: show_nat.simps)
    then have "show_nat n = [digit_char (n div 10), digit_char (n mod 10)]"
      using 2 by (subst show_nat.simps) simp
    moreover have "n div 1000 = 0" "n div 100 = 0" "n div 10 mod 10 = n div 10" using 2 by simp_all
    ultimately show ?thesis by (simp add: zfill_def z replicate_small)
  next
    case 3
    then have s1: "show_nat (n div 10 div 10) = [digit_char (n div 100)]"
      by (simp add: show_nat.simps div_mult2_eq [symmetric])
    have "\<not> n div 10 < 10" using 3 by simp
    then have "show_nat (n div 10) = [digit_char (n div 100), digit_char (n div 10 mod 10)]"
      using s1 by (subst show_nat.simps) simp
    then have "show_nat n = [digit_char (n div 100), digit_char (n div 10 mod 10), digit_char (n mod 10)]"
      using 3 by (subst show_nat.simps) simp
    moreover have "n div 1000 = 0" "n div 100 mod 10 = n div 100" using 3 by simp_all
    ultimately show ?thesis by (simp add: zfill_def z replicate_small)
  next
    case 4
    with assms have "n div 1000 < 10" by simp
    then have "show_nat (n div 10 div 10 div 10) = [digit_char (n div 1000)]"
      by (simp add: show_nat.simps div_mult2_eq [symmetric])
    moreover have "\<not> n div 10 div 10 < 10" using 4 by (simp add: div_mult2_eq [symmetric])
    ultimately have "show_nat (n div 10 div 10) = [digit_char (n div 1000), digit_char (n div 100 mod 10)]"
      by (subst show_nat.simps) (simp add: div_mult2_eq [symmetric])
    moreover have "\<not> n div 10 < 10" using 4 by simp
    ultimately have "show_nat (n div 10) =
        [digit_char (n div 1000), digit_char (n div 100 mod 10), digit_char (n div 10 mod 10)]"
      by (subst show_nat.simps) simp
    then have "show_nat n =
        [digit_char (n div 1000), digit_char (n div 100 mod 10), digit_char (n div 10 mod 10),
         digit_char (n mod 10)]"
      using 4 by (subst show_nat.simps) simp
    then show ?thesis by (simp add: zfill_def)
  qed
qed

lemma parse_strftime:
  assumes "valid_clock dt"
  shows "parse_datetime (strftime dt) = Some (dt\<lparr>dt_microsecond := 0\<rparr>)"
proof -
  from assms have b: "dt_year dt < 10000" "dt_month dt < 100" "dt_day dt < 100" "dt_hour dt < 100"
    "dt_minute dt < 100" "dt_second dt < 100"
    by (simp_all add: valid_clock_def)
  have v: "valid_clock \<lparr>dt_year = dt_year dt, dt_month = dt_month dt, dt_day = dt_day dt,
      dt_hour = dt_hour dt, dt_minute = dt_minute dt, dt_second = dt_second dt,
      dt_microsecond = 0\<rparr>"
    using assms by (simp add: valid_clock_def)
  show ?thesis
    by (simp add: strftime_def zfill4_show_nat zfill2_show_nat four_digits_of two_digits_of b v)
qed

section \<open>The tabular projection\<close>

lemma key_union_set: "set (key_union acc ks) = set acc \<union> set ks"
  by (induction ks arbitrary: acc) auto

lemma key_union_known: "set ks \<subseteq> set acc \<Longrightarrow> key_union acc ks = acc"
  by (induction ks arbitrary: acc) auto

lemma key_union_append: "key_union acc (xs @ ys) = key_union (key_union acc xs) ys"
  by (induction xs arbitrary: acc) auto

lemma wf_entry_shape:
  "wf_entry e \<Longrightarrow>
   \<exists>a b t. e = [(''temp_antarctic'', PyFloat a), (''temp_arctic'', PyFloat b),
                 (''timestamp'', PyStr t)]"
  by (cases e rule: wf_entry.cases) auto

lemma wf_entry_keys: "wf_entry e \<Longrightarrow> map fst e = [''temp_antarctic'', ''temp_arctic'', ''timestamp'']"
  by (drule wf_entry_shape) auto

lemma wf_new_dictionary_entry: "wf_entry (new_dictionary_entry i)"
  by (simp add: new_dictionary_entry_def Let_def)

lemma set_deque_append: "set (deque_append m d x) \<subseteq> insert x (set d)"
  by (cases d) (auto simp: deque_append_def Let_def dest: list.set_sel(2))

lemma wf_keys_labels:
  assumes "list_all wf_entry ds" "ds \<noteq> []"
  shows "key_union [] (concat (map (map fst) ds)) = [''temp_antarctic'', ''temp_arctic'', ''timestamp'']"
proof -
  let ?K = "[''temp_antarctic'', ''temp_arctic'', ''timestamp'']"
  from assms obtain d ds' where ds: "ds = d # ds'" by (cases ds) auto
  with assms have d: "map fst d = ?K" and rest: "list_all wf_entry ds'"
    by (simp_all add: wf_entry_keys)
  have "set (concat (map (map fst) ds')) \<subseteq> set ?K"
    using rest by (induction ds') (auto dest!: wf_entry_keys)
  then have "key_union ?K (concat (map (map fst) ds')) = ?K" by (rule key_union_known)
  moreover have "key_union [] ?K = ?K" by simp
  ultimately show ?thesis by (simp add: ds d key_union_append)
qed

lemma DataFrame_wf:
  assumes "list_all wf_entry ds" "ds \<noteq> []"
  shows "DataFrame ds =
     \<lparr>nrows = length ds,
      columns = [(''temp_antarctic'', column_of ''temp_antarctic'' ds),
                 (''temp_arctic'', column_of ''temp_arctic'' ds),
                 (''timestamp'', column_of ''timestamp'' ds)]\<rparr>"
  by (simp add: DataFrame_def wf_keys_labels [OF assms])

lemma wf_row:
  assumes "wf_entry e"
  shows "[(''temp_antarctic'', case map_of e ''temp_antarctic'' of None \<Rightarrow> NaN | Some v \<Rightarrow> Val v),
          (''temp_arctic'', case map_of e ''temp_arctic'' of None \<Rightarrow> NaN | Some v \<Rightarrow> Val v),
          (''timestamp'', case map_of e ''timestamp'' of None \<Rightarrow> NaN | Some v \<Rightarrow> Val v)]
         = map (\<lambda>(k, v). (k, Val v)) e"
  using wf_entry_shape [OF assms] by auto

lemma DataFrame_row:
  assumes "list_all wf_entry ds" "j < length ds"
  shows "df_row (DataFrame ds) j = map (\<lambda>(k, v). (k, Val v)) (ds ! j)"
proof -
  from assms have ne: "ds \<noteq> []" by auto
  from assms have w: "wf_entry (ds ! j)" by (simp add: list_all_length)
  show ?thesis
    using assms(2) by (simp add: DataFrame_wf [OF assms(1) ne] df_row_def column_of_def wf_row [OF w])
qed

lemma DataFrame_not_empty:
  assumes "e \<in> set ds" "e \<noteq> []"
  shows "\<not> df_empty (DataFrame ds)"
proof -
  from assms have "ds \<noteq> []" by auto
  moreover from assms have "concat (map (map fst) ds) \<noteq> []" by auto
  then have "set (key_union [] (concat (map (map fst) ds))) \<noteq> {}"
    by (simp add: key_union_set)
  then have "key_union [] (concat (map (map fst) ds)) \<noteq> []" by auto
  ultimately show ?thesis by (simp add: df_empty_def DataFrame_def)
qed

lemma last_in_deque_append: "0 < m \<Longrightarrow> x \<in> set (deque_append m d x)"
  using last_deque_append [of m d x] deque_append_nonempty [of m d x] last_in_set by metis

lemma wf_store_step: "wf_store s \<Longrightarrow> wf_store (snd (reactive_calc_combined i s))"
  using set_deque_append [of DEQUE_SIZE "the_deque s" "new_dictionary_entry i"]
  by (auto simp: wf_store_def the_deque_step list_all_iff wf_new_dictionary_entry)

lemma wf_store_init: "wf_store init_store"
  by (simp add: wf_store_def init_store_def)

lemma frame_at_step:
  "frame_at (snd (reactive_calc_combined i s)) (df (fst (reactive_calc_combined i s))) =
     Some (DataFrame (the_deque (snd (reactive_calc_combined i s))))"
  by (simp add: reactive_calc_combined_eq frame_at_def)

section \<open>The chart's writes to the store\<close>

lemma set_column_nonempty: "set_column k vs cs \<noteq> []"
  by (cases cs) auto

lemma map_of_set_column:
  "map_of (set_column k vs cs) k' = (if k' = k then Some vs else map_of cs k')"
  by (induction cs) auto

lemma df_setitem_props:
  assumes "df_setitem f k vs = Some f'"
  shows "nrows f' = nrows f" "columns f' \<noteq> []"
    "df_getitem f' k' = (if k' = k then Some vs else df_getitem f k')"
  using assms
  by (auto simp: df_setitem_def df_getitem_def set_column_nonempty map_of_set_column
      split: if_splits)

lemma frame_at_put_same: "frame_at s r = Some f \<Longrightarrow> frame_at (put_frame s r f') r = Some f'"
  by (auto simp: frame_at_def put_frame_def split: if_splits)

lemma put_frame_twice: "put_frame (put_frame s r f) r f' = put_frame s r f'"
  by (simp add: put_frame_def)

text \<open>The chart once the timestamp column has been converted and written back.\<close>

lemma display_plot_body_converted:
  assumes "frame_at s (df snap) = Some f0" "\<not> df_empty f0"
    "df_getitem f0 ''timestamp'' = Some ts" "to_datetime L ts = Some ts'"
    "df_setitem f0 ''timestamp'' ts' = Some f1"
  shows "display_plot_body L snap s =
    (let s1 = put_frame s (df snap) f1 in
            (case px_scatter f1 of
               None \<Rightarrow> (Inl ValueError, s1)
             | Some fig \<Rightarrow>
            (let x_vals = [0..<nrows f1] in
            (case df_getitem f1 ''temp_antarctic'' of
               None \<Rightarrow> (Inl KeyError, s1)
             | Some y_vals \<Rightarrow>
            (case linregress L (map real x_vals) y_vals of
               None \<Rightarrow> (Inl LibraryError, s1)
             | Some (slope, intercept) \<Rightarrow>
            (case df_setitem f1 ''best_fit_line'' (best_fit_line slope intercept x_vals) of
               None \<Rightarrow> (Inl ValueError, s1)
             | Some f2 \<Rightarrow>
            (let s2 = put_frame s1 (df snap) f2 in
            (case df_getitem f2 ''timestamp'' of
               None \<Rightarrow> (Inl KeyError, s2)
             | Some line_x \<Rightarrow>
            (case df_getitem f2 ''best_fit_line'' of
               None \<Rightarrow> (Inl KeyError, s2)
             | Some line_y \<Rightarrow>
                 (Inr (update_layout (add_scatter fig line_x line_y)), s2))))))))))"
  by (simp add: display_plot_body_def assms)

lemma display_plot_body_store:
  "frame_written s (df snap) (snd (display_plot_body L snap s))"
proof (cases "frame_at s (df snap)")
  case None
  then show ?thesis by (simp add: display_plot_body_def frame_written.unchanged)
next
  case (Some f0)
  show ?thesis
  proof (cases "df_empty f0")
    case True
    then show ?thesis by (simp add: display_plot_body_def Some frame_written.unchanged)
  next
    case ne: False
    show ?thesis
    proof (cases "df_getitem f0 ''timestamp''")
      case None
      then show ?thesis by (simp add: display_plot_body_def Some ne frame_written.unchanged)
    next
      case ts: (Some ts)
      show ?thesis
      proof (cases "to_datetime L ts")
        case None
        then show ?thesis by (simp add: display_plot_body_def Some ne ts frame_written.unchanged)
      next
        case ts': (Some ts')
        show ?thesis
        proof (cases "df_setitem f0 ''timestamp'' ts'")
          case None
          then show ?thesis by (simp add: display_plot_body_def Some ne ts ts' frame_written.unchanged)
        next
          case f1: (Some f1)
          have w1: "frame_written s (df snap) (put_frame s (df snap) f1)"
            by (rule frame_written.written [OF Some]) (simp_all add: df_setitem_props [OF f1])
          have w2: "frame_written s (df snap) (put_frame s (df snap) f2)"
            if "df_setitem f1 ''best_fit_line'' vs = Some f2" for vs f2
            by (rule frame_written.written [OF Some])
               (simp_all add: df_setitem_props [OF f1] df_setitem_props [OF that])
          show ?thesis
            unfolding display_plot_body_converted [OF Some ne ts ts' f1] Let_def
            by (simp add: put_frame_twice w1 w2 split: option.split prod.split)
        qed
      qed
    qed
  qed
qed

lemma frame_written_deque: "frame_written s r s' \<Longrightarrow> the_deque s' = the_deque s"
  by (erule frame_written.cases) (simp_all add: put_frame_def)

lemma frame_written_length: "frame_written s r s' \<Longrightarrow> length (frames s') = length (frames s)"
  by (erule frame_written.cases) (simp_all add: put_frame_def)

lemma frame_written_other: "frame_written s r s' \<Longrightarrow> r' \<noteq> r \<Longrightarrow> frame_at s' r' = frame_at s r'"
  by (erule frame_written.cases) (simp_all add: put_frame_def frame_at_def)

lemma frame_written_columns:
  "frame_written s r s' \<Longrightarrow> frame_at s r = Some f \<Longrightarrow>
   \<exists>f'. frame_at s' r = Some f' \<and> nrows f' = nrows f \<and> (columns f \<noteq> [] \<longrightarrow> columns f' \<noteq> []) \<and>
     (\<forall>k. k \<noteq> ''timestamp'' \<and> k \<noteq> ''best_fit_line'' \<longrightarrow> df_getitem f' k = df_getitem f k)"
  by (erule frame_written.cases) (simp_all add: frame_at_put_same)

lemma frame_written_nonempty:
  "frame_written s r s' \<Longrightarrow> frame_at s r = Some f \<Longrightarrow> \<not> df_empty f \<Longrightarrow>
   \<exists>f'. frame_at s' r = Some f' \<and> \<not> df_empty f'"
  by (erule frame_written.cases) (simp_all add: frame_at_put_same df_empty_def)

lemma display_plot_body_unbound:
  assumes "frame_at s (df snap) = Some f0" "\<not> df_empty f0"
  shows "fst (display_plot_body L snap s) \<noteq> Inl UnboundLocalError"
proof (cases "\<exists>ts ts' f1. df_getitem f0 ''timestamp'' = Some ts \<and> to_datetime L ts = Some ts' \<and>
                df_setitem f0 ''timestamp'' ts' = Some f1")
  case True
  then obtain ts ts' f1 where h: "df_getitem f0 ''timestamp'' = Some ts" "to_datetime L ts = Some ts'"
    "df_setitem f0 ''timestamp'' ts' = Some f1" by blast
  show ?thesis
    unfolding display_plot_body_converted [OF assms h] Let_def
    by (simp split: option.split prod.split)
next
  case False
  then show ?thesis
    by (cases "df_getitem f0 ''timestamp''"; cases "to_datetime L (the (df_getitem f0 ''timestamp''))";
        cases "df_setitem f0 ''timestamp'' (the (to_datetime L (the (df_getitem f0 ''timestamp''))))")
       (simp_all add: display_plot_body_def assms)
qed

section \<open>Completeness of the returned tuple\<close>

lemma DataFrame_column_lengths:
  "list_all (\<lambda>(k, c). length c = nrows (DataFrame ds)) (columns (DataFrame ds))"
  by (simp add: DataFrame_def column_of_def list_all_iff)

text \<open>
  C8. In a store whose deque holds only dicts the pipeline built, an invocation leaves such
  a store and returns a complete tuple: the buffer is not empty, the latest entry has the
  three fields, the frame has one row per buffer entry and the three columns in full
  length, and row \<open>j\<close> of the frame carries exactly the values of the \<open>j\<close>-th buffer
  entry, none of them NaN. On the first tick, from the empty deque, that is one row.
\<close>

theorem snapshot_complete_and_consistent:
  assumes "wf_store s"
  shows "let snap = fst (reactive_calc_combined i s); s' = snd (reactive_calc_combined i s);
             buf = deque_contents s' (deque_snapshot snap)
         in wf_store s' \<and> buf \<noteq> [] \<and> wf_entry (latest_dictionary_entry snap) \<and>
            (\<exists>f. frame_at s' (df snap) = Some f \<and> nrows f = length buf \<and>
                 map fst (columns f) = [''temp_antarctic'', ''temp_arctic'', ''timestamp''] \<and>
                 list_all (\<lambda>(k, c). length c = nrows f) (columns f) \<and>
                 (\<forall>j<length buf. wf_entry (buf ! j) \<and>
                    df_row f j = map (\<lambda>(k, v). (k, Val v)) (buf ! j)))"
proof -
  let ?snap = "fst (reactive_calc_combined i s)"
  let ?s' = "snd (reactive_calc_combined i s)"
  let ?buf = "the_deque ?s'"
  have w: "wf_store ?s'" using assms by (rule wf_store_step)
  then have all: "list_all wf_entry ?buf" by (simp add: wf_store_def)
  have ne: "?buf \<noteq> []"
    by (simp add: the_deque_step deque_append_nonempty DEQUE_SIZE_def)
  have l: "wf_entry (latest_dictionary_entry ?snap)"
    by (simp add: reactive_calc_combined_eq wf_new_dictionary_entry)
  have f: "frame_at ?s' (df ?snap) = Some (DataFrame ?buf)" by (rule frame_at_step)
  have n: "nrows (DataFrame ?buf) = length ?buf" by (simp add: DataFrame_def)
  have c: "map fst (columns (DataFrame ?buf)) = [''temp_antarctic'', ''temp_arctic'', ''timestamp'']"
    by (simp add: DataFrame_wf [OF all ne])
  have r: "\<forall>j<length ?buf. wf_entry (?buf ! j) \<and>
             df_row (DataFrame ?buf) j = map (\<lambda>(k, v). (k, Val v)) (?buf ! j)"
    using all by (simp add: DataFrame_row list_all_length)
  have ex: "\<exists>g. frame_at ?s' (df ?snap) = Some g \<and> nrows g = length ?buf \<and>
                 map fst (columns g) = [''temp_antarctic'', ''temp_arctic'', ''timestamp''] \<and>
                 list_all (\<lambda>(k, c). length c = nrows g) (columns g) \<and>
                 (\<forall>j<length ?buf. wf_entry (?buf ! j) \<and>
                    df_row g j = map (\<lambda>(k, v). (k, Val v)) (?buf ! j))"
    by (rule exI [of _ "DataFrame ?buf"]) (intro conjI f n c r DataFrame_column_lengths)
  show ?thesis
    unfolding Let_def deque_contents_def by (intro conjI w ne l ex)
qed

lemma first_tick_deque:
  "the_deque (snd (reactive_calc_combined i init_store)) = [new_dictionary_entry i]"
  by (simp add: the_deque_step init_store_def deque_append_def DEQUE_SIZE_def)

theorem snapshot_complete_and_consistent_witness:
  "wf_store init_store \<and>
   (\<exists>f. frame_at (snd (reactive_calc_combined sample_input init_store))
            (df (fst (reactive_calc_combined sample_input init_store))) = Some f \<and>
        nrows f = 1 \<and>
        df_row f 0 = [(''temp_antarctic'', Val (PyFloat (- 174 / 10))),
                      (''temp_arctic'', Val (PyFloat (- 188 / 10))),
                      (''timestamp'', Val (PyStr ''2024-06-09 14:05:07''))])"
proof -
  have b: "deque_contents (snd (reactive_calc_combined sample_input init_store))
             (deque_snapshot (fst (reactive_calc_combined sample_input init_store))) =
           [new_dictionary_entry sample_input]"
    by (simp add: deque_contents_def first_tick_deque)
  from snapshot_complete_and_consistent [OF wf_store_init, of sample_input]
  have "\<exists>f. frame_at (snd (reactive_calc_combined sample_input init_store))
            (df (fst (reactive_calc_combined sample_input init_store))) = Some f \<and>
          nrows f = length [new_dictionary_entry sample_input] \<and>
          map fst (columns f) = [''temp_antarctic'', ''temp_arctic'', ''timestamp''] \<and>
          list_all (\<lambda>(k, c). length c = nrows f) (columns f) \<and>
          (\<forall>j<length [new_dictionary_entry sample_input].
              wf_entry ([new_dictionary_entry sample_input] ! j) \<and>
              df_row f j = map (\<lambda>(k, v). (k, Val v)) ([new_dictionary_entry sample_input] ! j))"
    unfolding Let_def b by (elim conjE)
  then obtain f where f: "frame_at (snd (reactive_calc_combined sample_input init_store))
            (df (fst (reactive_calc_combined sample_input init_store))) = Some f"
    and n: "nrows f = length [new_dictionary_entry sample_input]"
    and r: "\<forall>j<length [new_dictionary_entry sample_input].
              wf_entry ([new_dictionary_entry sample_input] ! j) \<and>
              df_row f j = map (\<lambda>(k, v). (k, Val v)) ([new_dictionary_entry sample_input] ! j)"
    by (elim exE conjE)
  from r have "df_row f 0 = map (\<lambda>(k, v). (k, Val v)) (new_dictionary_entry sample_input)"
    by simp
  then have "df_row f 0 = [(''temp_antarctic'', Val (PyFloat (- 174 / 10))),
                      (''temp_arctic'', Val (PyFloat (- 188 / 10))),
                      (''timestamp'', Val (PyStr ''2024-06-09 14:05:07''))]"
    by (simp add: sample_entry)
  with f n show ?thesis by (simp add: wf_store_init)
qed

section \<open>The chart's figure\<close>

lemma pipeline_frame_not_empty:
  "\<exists>f. frame_at (snd (reactive_calc_combined i s)) (df (fst (reactive_calc_combined i s))) = Some f \<and>
       \<not> df_empty f"
proof -
  have "new_dictionary_entry i \<in> set (the_deque (snd (reactive_calc_combined i s)))"
    by (simp add: the_deque_step last_in_deque_append DEQUE_SIZE_def)
  moreover have "new_dictionary_entry i \<noteq> []" by (simp add: new_dictionary_entry_def Let_def)
  ultimately have "\<not> df_empty (DataFrame (the_deque (snd (reactive_calc_combined i s))))"
    by (rule DataFrame_not_empty)
  then show ?thesis by (simp add: frame_at_step)
qed

lemma cache_ok_init: "cache_ok init_runtime"
  by (simp add: cache_ok_def init_runtime_def)

lemma cache_ok_invalidate: "cache_ok (invalidate rt)"
  by (simp add: cache_ok_def invalidate_def)

lemma call_caches:
  "cache (snd (reactive_calc_combined_call inp rt)) = Some (fst (reactive_calc_combined_call inp rt))"
  by (simp add: reactive_calc_combined_call_def split_beta split: option.split)

lemma cache_ok_call: "cache_ok rt \<Longrightarrow> cache_ok (snd (reactive_calc_combined_call inp rt))"
proof (cases "cache rt")
  case None
  obtain f where "frame_at (snd (reactive_calc_combined inp (heap rt)))
      (df (fst (reactive_calc_combined inp (heap rt)))) = Some f" "\<not> df_empty f"
    using pipeline_frame_not_empty by blast
  then show ?thesis
    by (simp add: reactive_calc_combined_call_def None split_beta cache_ok_def)
next
  case (Some snap)
  assume "cache_ok rt"
  then show ?thesis by (simp add: reactive_calc_combined_call_def Some)
qed

lemma cache_ok_frame:
  assumes "cache_ok rt" "cache rt = Some snap"
  obtains f where "frame_at (heap rt) (df snap) = Some f" "\<not> df_empty f"
  using assms by (auto simp: cache_ok_def split: option.splits)

text \<open>
  C10. The frame an invocation of the pipeline builds has at least one row and one column,
  whatever the store was. So whenever the cached tuple, if any, refers to a non-empty
  frame, which holds initially and after every operation, \<open>display_plot\<close> takes the
  branch that binds \<open>fig\<close>: it never ends in UnboundLocalError, and it leaves the cached
  frame non-empty.
\<close>

theorem chart_figure_always_bound:
  "(\<exists>f. frame_at (snd (reactive_calc_combined i s)) (df (fst (reactive_calc_combined i s))) = Some f \<and>
        \<not> df_empty f) \<and>
   (cache_ok rt \<longrightarrow>
      fst (display_plot L inp rt) \<noteq> Inl UnboundLocalError \<and>
      cache_ok (snd (display_plot L inp rt)))"
proof (intro conjI impI)
  show "\<exists>f. frame_at (snd (reactive_calc_combined i s)) (df (fst (reactive_calc_combined i s))) = Some f \<and>
        \<not> df_empty f" by (rule pipeline_frame_not_empty)
next
  assume ok: "cache_ok rt"
  let ?snap = "fst (reactive_calc_combined_call inp rt)"
  let ?rt' = "snd (reactive_calc_combined_call inp rt)"
  have ok': "cache_ok ?rt'" using ok by (rule cache_ok_call)
  have c: "cache ?rt' = Some ?snap" by (rule call_caches)
  from cache_ok_frame [OF ok' c] obtain f where
    f: "frame_at (heap ?rt') (df ?snap) = Some f" "\<not> df_empty f" by blast
  have d: "display_plot L inp rt =
      (fst (display_plot_body L ?snap (heap ?rt')),
       ?rt'\<lparr>heap := snd (display_plot_body L ?snap (heap ?rt'))\<rparr>)"
    by (simp add: display_plot_def split_beta)
  show "fst (display_plot L inp rt) \<noteq> Inl UnboundLocalError"
    unfolding d using display_plot_body_unbound [OF f] by simp
  from frame_written_nonempty [OF display_plot_body_store f]
  obtain f' where "frame_at (snd (display_plot_body L ?snap (heap ?rt'))) (df ?snap) = Some f'"
    "\<not> df_empty f'" by blast
  then show "cache_ok (snd (display_plot L inp rt))"
    unfolding d by (simp add: cache_ok_def c)
qed

theorem chart_figure_always_bound_witness:
  "cache_ok init_runtime \<and>
   fst (display_plot pandas_scipy sample_input init_runtime) \<noteq> Inl UnboundLocalError"
  using chart_figure_always_bound [of sample_input init_store init_runtime pandas_scipy sample_input]
  by (simp add: cache_ok_init)

section \<open>The trend line\<close>

text \<open>A chart that returns a figure has gone through every step.\<close>

lemma display_plot_body_success:
  assumes ok: "fst (display_plot_body L snap s) = Inr fig"
  obtains f0 T ts f1 scat A slope intercept f2 where
    "frame_at s (df snap) = Some f0" "\<not> df_empty f0"
    "df_getitem f0 ''timestamp'' = Some T" "to_datetime L T = Some ts"
    "df_setitem f0 ''timestamp'' ts = Some f1"
    "px_scatter f1 = Some scat"
    "df_getitem f1 ''temp_antarctic'' = Some A"
    "linregress L (map real [0..<nrows f1]) A = Some (slope, intercept)"
    "df_setitem f1 ''best_fit_line'' (best_fit_line slope intercept [0..<nrows f1]) = Some f2"
    "snd (display_plot_body L snap s) = put_frame s (df snap) f2"
    "fig = update_layout (add_scatter scat ts (best_fit_line slope intercept [0..<nrows f1]))"
proof -
  obtain f0 where f0: "frame_at s (df snap) = Some f0"
    using ok by (cases "frame_at s (df snap)") (simp_all add: display_plot_body_def)
  have ne: "\<not> df_empty f0"
    using ok by (cases "df_empty f0") (simp_all add: display_plot_body_def f0)
  obtain T where T: "df_getitem f0 ''timestamp'' = Some T"
    using ok by (cases "df_getitem f0 ''timestamp''") (simp_all add: display_plot_body_def f0 ne)
  obtain ts where ts: "to_datetime L T = Some ts"
    using ok by (cases "to_datetime L T") (simp_all add: display_plot_body_def f0 ne T)
  obtain f1 where f1: "df_setitem f0 ''timestamp'' ts = Some f1"
    using ok by (cases "df_setitem f0 ''timestamp'' ts")
      (simp_all add: display_plot_body_def f0 ne T ts)
  note conv = display_plot_body_converted [OF f0 ne T ts f1]
  obtain scat where scat: "px_scatter f1 = Some scat"
    using ok unfolding conv Let_def by (cases "px_scatter f1") simp_all
  obtain A where A: "df_getitem f1 ''temp_antarctic'' = Some A"
    using ok unfolding conv Let_def
    by (cases "df_getitem f1 ''temp_antarctic''") (simp_all add: scat)
  obtain slope intercept where
    fit: "linregress L (map real [0..<nrows f1]) A = Some (slope, intercept)"
    using ok unfolding conv Let_def
    by (cases "linregress L (map real [0..<nrows f1]) A") (auto simp: scat A)
  obtain f2 where
    f2: "df_setitem f1 ''best_fit_line'' (best_fit_line slope intercept [0..<nrows f1]) = Some f2"
    using ok unfolding conv Let_def
    by (cases "df_setitem f1 ''best_fit_line'' (best_fit_line slope intercept [0..<nrows f1])")
       (simp_all add: scat A fit)
  have g1: "df_getitem f2 ''best_fit_line'' = Some (best_fit_line slope intercept [0..<nrows f1])"
    by (simp add: df_setitem_props(3) [OF f2])
  have "df_getitem f1 ''timestamp'' = Some ts"
    by (simp add: df_setitem_props(3) [OF f1])
  then have g2: "df_getitem f2 ''timestamp'' = Some ts"
    by (simp add: df_setitem_props(3) [OF f2])
  have r: "display_plot_body L snap s =
      (Inr (update_layout (add_scatter scat ts (best_fit_line slope intercept [0..<nrows f1]))),
       put_frame s (df snap) f2)"
    unfolding conv Let_def by (simp add: scat A fit f2 g1 g2 put_frame_twice)
  from ok r have g: "fig = update_layout (add_scatter scat ts (best_fit_line slope intercept [0..<nrows f1]))"
    by simp
  from r have p: "snd (display_plot_body L snap s) = put_frame s (df snap) f2" by simp
  show thesis by (rule that [OF f0 ne T ts f1 scat A fit f2 p g])
qed

lemma column_of_length: "length (column_of k ds) = length ds"
  by (simp add: column_of_def)

lemma best_fit_line_length: "length (best_fit_line slope intercept xs) = length xs"
  by (simp add: best_fit_line_def)

text \<open>The chart on a frame that has the three columns of the pipeline: the figure and the
  store it leaves.\<close>

lemma display_plot_body_on_pipeline_frame:
  assumes f0: "frame_at s (df snap) =
             Some \<lparr>nrows = n, columns = [(''temp_antarctic'', A), (''temp_arctic'', B), (''timestamp'', T)]\<rparr>"
    and n: "0 < n"
    and ts: "to_datetime L T = Some ts" "length ts = n"
    and fit: "linregress L (map real [0..<n]) A = Some (slope, intercept)"
  shows "display_plot_body L snap s =
     (Inr \<lparr>fig_title = ''Temperature Readings with Regression Line (Antarctic)'',
           fig_traces =
             [\<lparr>tr_x = ts, tr_y = A, tr_mode = ''markers'', tr_name = []\<rparr>,
              \<lparr>tr_x = ts, tr_y = best_fit_line slope intercept [0..<n],
                tr_mode = ''lines'', tr_name = ''Regression Line''\<rparr>],
           xaxis_title = ''Time'',
           yaxis_title = ''Temperature ('' @ degree_sign @ ''C)''\<rparr>,
      put_frame s (df snap)
        \<lparr>nrows = n,
         columns = [(''temp_antarctic'', A), (''temp_arctic'', B), (''timestamp'', ts),
                    (''best_fit_line'', best_fit_line slope intercept [0..<n])]\<rparr>)"
proof -
  let ?f0 = "\<lparr>nrows = n, columns = [(''temp_antarctic'', A), (''temp_arctic'', B), (''timestamp'', T)]\<rparr>"
  let ?f1 = "\<lparr>nrows = n, columns = [(''temp_antarctic'', A), (''temp_arctic'', B), (''timestamp'', ts)]\<rparr>"
  have ne: "\<not> df_empty ?f0" using n by (simp add: df_empty_def)
  have g: "df_getitem ?f0 ''timestamp'' = Some T" by (simp add: df_getitem_def)
  have s1: "df_setitem ?f0 ''timestamp'' ts = Some ?f1" using ts(2) by (simp add: df_setitem_def)
  have sc: "px_scatter ?f1 =
      Some \<lparr>fig_title = ''Temperature Readings with Regression Line (Antarctic)'',
            fig_traces = [\<lparr>tr_x = ts, tr_y = A, tr_mode = ''markers'', tr_name = []\<rparr>],
            xaxis_title = ''Time'',
            yaxis_title = ''Temperature ('' @ degree_sign @ ''C)''\<rparr>"
    by (simp add: px_scatter_def df_getitem_def)
  have ga: "df_getitem ?f1 ''temp_antarctic'' = Some A" by (simp add: df_getitem_def)
  have s2: "df_setitem ?f1 ''best_fit_line'' (best_fit_line slope intercept [0..<n]) =
      Some \<lparr>nrows = n, columns = [(''temp_antarctic'', A), (''temp_arctic'', B), (''timestamp'', ts),
                                   (''best_fit_line'', best_fit_line slope intercept [0..<n])]\<rparr>"
    by (simp add: df_setitem_def best_fit_line_length)
  show ?thesis
    unfolding display_plot_body_converted [OF f0 ne g ts(1) s1]
    by (simp add: sc ga s2 fit Let_def df_getitem_def add_scatter_def update_layout_def
        put_frame_twice)
qed

lemma display_plot_body_fit_raises:
  assumes f0: "frame_at s (df snap) =
             Some \<lparr>nrows = n, columns = [(''temp_antarctic'', A), (''temp_arctic'', B), (''timestamp'', T)]\<rparr>"
    and n: "0 < n"
    and ts: "to_datetime L T = Some ts" "length ts = n"
    and fit: "linregress L (map real [0..<n]) A = None"
  shows "fst (display_plot_body L snap s) = Inl LibraryError"
proof -
  let ?f0 = "\<lparr>nrows = n, columns = [(''temp_antarctic'', A), (''temp_arctic'', B), (''timestamp'', T)]\<rparr>"
  let ?f1 = "\<lparr>nrows = n, columns = [(''temp_antarctic'', A), (''temp_arctic'', B), (''timestamp'', ts)]\<rparr>"
  have ne: "\<not> df_empty ?f0" using n by (simp add: df_empty_def)
  have g: "df_getitem ?f0 ''timestamp'' = Some T" by (simp add: df_getitem_def)
  have s1: "df_setitem ?f0 ''timestamp'' ts = Some ?f1" using ts(2) by (simp add: df_setitem_def)
  have sc: "px_scatter ?f1 \<noteq> None" by (simp add: px_scatter_def df_getitem_def)
  then obtain fig where sc': "px_scatter ?f1 = Some fig" by (cases "px_scatter ?f1") simp_all
  have ga: "df_getitem ?f1 ''temp_antarctic'' = Some A" by (simp add: df_getitem_def)
  show ?thesis
    unfolding display_plot_body_converted [OF f0 ne g ts(1) s1]
    by (simp add: sc' ga fit Let_def)
qed

text \<open>The frame of the tuple an invocation returns.\<close>

lemma pipeline_frame:
  assumes "wf_store s"
  shows "the_deque (snd (reactive_calc_combined i s)) \<noteq> [] \<and>
     frame_at (snd (reactive_calc_combined i s)) (df (fst (reactive_calc_combined i s))) =
       Some \<lparr>nrows = length (the_deque (snd (reactive_calc_combined i s))),
             columns =
               [(''temp_antarctic'', column_of ''temp_antarctic'' (the_deque (snd (reactive_calc_combined i s)))),
                (''temp_arctic'', column_of ''temp_arctic'' (the_deque (snd (reactive_calc_combined i s)))),
                (''timestamp'', column_of ''timestamp'' (the_deque (snd (reactive_calc_combined i s))))]\<rparr>"
proof -
  let ?buf = "the_deque (snd (reactive_calc_combined i s))"
  have w: "list_all wf_entry ?buf"
    using wf_store_step [OF assms, of i] by (simp add: wf_store_def)
  have ne: "?buf \<noteq> []"
    by (simp add: the_deque_step deque_append_nonempty DEQUE_SIZE_def)
  show ?thesis
    unfolding frame_at_step using ne DataFrame_wf [OF w ne] by simp
qed

text \<open>
  C9. On the tuple an invocation returns, once the timestamp column is converted, the
  chart calls \<open>linregress\<close> with the row indices \<open>0, ..., n-1\<close> as x values and the
  Antarctic column of the buffer as y values; timestamps are not passed to the fit. When
  the fit returns \<open>(slope, intercept)\<close> the figure has the scatter of the Antarctic
  column and a second trace whose \<open>i\<close>-th point is \<open>slope * i + intercept\<close>, which for
  finite slope and intercept is that real number; when the fit raises, so does the chart.
\<close>

theorem trend_line_over_row_indices:
  fixes i s L
  defines "snap \<equiv> fst (reactive_calc_combined i s)"
    and "s' \<equiv> snd (reactive_calc_combined i s)"
  defines "buf \<equiv> deque_contents s' (deque_snapshot snap)"
  assumes wf: "wf_store s"
    and ts: "to_datetime L (column_of ''timestamp'' buf) = Some ts" "length ts = length buf"
  shows "fst (display_plot_body L snap s') =
     (case linregress L (map real [0..<length buf]) (column_of ''temp_antarctic'' buf) of
        None \<Rightarrow> Inl LibraryError
      | Some (slope, intercept) \<Rightarrow>
          Inr \<lparr>fig_title = ''Temperature Readings with Regression Line (Antarctic)'',
               fig_traces =
                 [\<lparr>tr_x = ts, tr_y = column_of ''temp_antarctic'' buf, tr_mode = ''markers'',
                    tr_name = []\<rparr>,
                  \<lparr>tr_x = ts,
                    tr_y = map (\<lambda>x. cell_of_float (fadd (fmul slope (Finite (real x))) intercept))
                             [0..<length buf],
                    tr_mode = ''lines'', tr_name = ''Regression Line''\<rparr>],
               xaxis_title = ''Time'',
               yaxis_title = ''Temperature ('' @ degree_sign @ ''C)''\<rparr>) \<and>
     cell_of_float (fadd (fmul (Finite a) (Finite (real x))) (Finite b)) =
       Val (PyFloat (a * real x + b))"
proof -
  have b: "buf = the_deque s'" by (simp add: buf_def deque_contents_def)
  from pipeline_frame [OF wf, of i]
  have ne: "buf \<noteq> []"
    and f0: "frame_at s' (df snap) =
      Some \<lparr>nrows = length buf,
            columns = [(''temp_antarctic'', column_of ''temp_antarctic'' buf),
                       (''temp_arctic'', column_of ''temp_arctic'' buf),
                       (''timestamp'', column_of ''timestamp'' buf)]\<rparr>"
    unfolding b s'_def snap_def by simp_all
  from ne have n: "0 < length buf" by simp
  have "fst (display_plot_body L snap s') =
     (case linregress L (map real [0..<length buf]) (column_of ''temp_antarctic'' buf) of
        None \<Rightarrow> Inl LibraryError
      | Some (slope, intercept) \<Rightarrow>
          Inr \<lparr>fig_title = ''Temperature Readings with Regression Line (Antarctic)'',
               fig_traces =
                 [\<lparr>tr_x = ts, tr_y = column_of ''temp_antarctic'' buf, tr_mode = ''markers'',
                    tr_name = []\<rparr>,
                  \<lparr>tr_x = ts,
                    tr_y = map (\<lambda>x. cell_of_float (fadd (fmul slope (Finite (real x))) intercept))
                             [0..<length buf],
                    tr_mode = ''lines'', tr_name = ''Regression Line''\<rparr>],
               xaxis_title = ''Time'',
               yaxis_title = ''Temperature ('' @ degree_sign @ ''C)''\<rparr>)"
  proof (cases "linregress L (map real [0..<length buf]) (column_of ''temp_antarctic'' buf)")
    case None
    then show ?thesis
      using display_plot_body_fit_raises [OF f0 n ts None] by simp
  next
    case (Some p)
    obtain slope intercept where p: "p = (slope, intercept)" by (cases p)
    from Some p have fit: "linregress L (map real [0..<length buf]) (column_of ''temp_antarctic'' buf) =
        Some (slope, intercept)" by simp
    show ?thesis
      using display_plot_body_on_pipeline_frame [OF f0 n ts fit]
      by (simp add: fit best_fit_line_def)
  qed
  then show ?thesis by simp
qed

section \<open>The sample session\<close>

lemma sample_deques:
  "the_deque sample_store = [new_dictionary_entry sample_input]"
  "the_deque sample_store_2 = [new_dictionary_entry sample_input, new_dictionary_entry sample_input_2]"
  "the_deque sample_store_3 =
     [new_dictionary_entry sample_input, new_dictionary_entry sample_input_2,
      new_dictionary_entry sample_input_3]"
  by (simp_all add: sample_store_def sample_store_2_def sample_store_3_def the_deque_step
      init_store_def deque_append_def DEQUE_SIZE_def)

lemma sample_frame_counts:
  "length (frames sample_store) = 1" "length (frames sample_store_2) = 2"
  "length (frames sample_store_3) = 3"
  by (simp_all add: sample_store_def sample_store_2_def sample_store_3_def
      reactive_calc_combined_eq init_store_def)

lemma sample_refs: "df sample_snapshot = 0" "df sample_snapshot_3 = 2"
  using sample_frame_counts
  by (simp_all add: sample_snapshot_def sample_snapshot_3_def reactive_calc_combined_eq
      init_store_def)

lemma sample_wf: "wf_store sample_store" "wf_store sample_store_2" "wf_store sample_store_3"
  unfolding sample_store_def sample_store_2_def sample_store_3_def
  by (intro wf_store_step wf_store_init)+

lemma sample_columns_3:
  "column_of ''temp_antarctic'' (the_deque sample_store_3) =
     [Val (PyFloat (- 174 / 10)), Val (PyFloat (- 168 / 10)), Val (PyFloat (- 17))]"
  "column_of ''temp_arctic'' (the_deque sample_store_3) =
     [Val (PyFloat (- 188 / 10)), Val (PyFloat (- 162 / 10)), Val (PyFloat (- 175 / 10))]"
  "column_of ''timestamp'' (the_deque sample_store_3) =
     [Val (PyStr ''2024-06-09 14:05:07''), Val (PyStr ''2024-06-09 14:05:10''),
      Val (PyStr ''2024-06-09 14:05:13'')]"
  by (simp_all add: sample_deques sample_entry sample_entry_2 sample_entry_3 column_of_def)

lemma sample_columns_1:
  "column_of ''temp_antarctic'' (the_deque sample_store) = [Val (PyFloat (- 174 / 10))]"
  "column_of ''temp_arctic'' (the_deque sample_store) = [Val (PyFloat (- 188 / 10))]"
  "column_of ''timestamp'' (the_deque sample_store) = [Val (PyStr ''2024-06-09 14:05:07'')]"
  by (simp_all add: sample_deques sample_entry column_of_def)

lemma sample_times:
  "pandas_to_datetime
     [Val (PyStr ''2024-06-09 14:05:07''), Val (PyStr ''2024-06-09 14:05:10''),
      Val (PyStr ''2024-06-09 14:05:13'')] =
   Some [Timestamp (sample_now\<lparr>dt_second := 7, dt_microsecond := 0\<rparr>),
         Timestamp (sample_now\<lparr>dt_second := 10, dt_microsecond := 0\<rparr>),
         Timestamp (sample_now\<lparr>dt_second := 13, dt_microsecond := 0\<rparr>)]"
  "pandas_to_datetime [Val (PyStr ''2024-06-09 14:05:07'')] =
   Some [Timestamp (sample_now\<lparr>dt_second := 7, dt_microsecond := 0\<rparr>)]"
  by (simp_all add: pandas_to_datetime_def four_digits_def two_digits_def digit_val_def
      valid_clock_def sample_now_def)

lemma sample_fit_3:
  "scipy_linregress (map real [0..<3])
     [Val (PyFloat (- 174 / 10)), Val (PyFloat (- 168 / 10)), Val (PyFloat (- 17))] =
   Some (Finite (1 / 5), Finite (- 259 / 15))"
  by (simp add: scipy_linregress_def mean_def upt_rec numeral_3_eq_3)

lemma sample_line_3:
  "best_fit_line (Finite (1 / 5)) (Finite (- 259 / 15)) [0..<3] =
     [Val (PyFloat (- 259 / 15)), Val (PyFloat (- 256 / 15)), Val (PyFloat (- 253 / 15))]"
  by (simp add: best_fit_line_def upt_rec numeral_3_eq_3)

theorem trend_line_over_row_indices_witness:
  "wf_store sample_store_2 \<and>
   to_datetime pandas_scipy
     (column_of ''timestamp'' (deque_contents sample_store_3 (deque_snapshot sample_snapshot_3))) =
     Some [Timestamp (sample_now\<lparr>dt_second := 7, dt_microsecond := 0\<rparr>),
           Timestamp (sample_now\<lparr>dt_second := 10, dt_microsecond := 0\<rparr>),
           Timestamp (sample_now\<lparr>dt_second := 13, dt_microsecond := 0\<rparr>)] \<and>
   linregress pandas_scipy (map real [0..<3])
     (column_of ''temp_antarctic'' (deque_contents sample_store_3 (deque_snapshot sample_snapshot_3))) =
     Some (Finite (1 / 5), Finite (- 259 / 15)) \<and>
   fst (display_plot_body pandas_scipy sample_snapshot_3 sample_store_3) =
     Inr \<lparr>fig_title = ''Temperature Readings with Regression Line (Antarctic)'',
          fig_traces =
            [\<lparr>tr_x = [Timestamp (sample_now\<lparr>dt_second := 7, dt_microsecond := 0\<rparr>),
                      Timestamp (sample_now\<lparr>dt_second := 10, dt_microsecond := 0\<rparr>),
                      Timestamp (sample_now\<lparr>dt_second := 13, dt_microsecond := 0\<rparr>)],
               tr_y = [Val (PyFloat (- 174 / 10)), Val (PyFloat (- 168 / 10)), Val (PyFloat (- 17))],
               tr_mode = ''markers'', tr_name = []\<rparr>,
             \<lparr>tr_x = [Timestamp (sample_now\<lparr>dt_second := 7, dt_microsecond := 0\<rparr>),
                      Timestamp (sample_now\<lparr>dt_second := 10, dt_microsecond := 0\<rparr>),
                      Timestamp (sample_now\<lparr>dt_second := 13, dt_microsecond := 0\<rparr>)],
               tr_y = [Val (PyFloat (- 259 / 15)), Val (PyFloat (- 256 / 15)),
                       Val (PyFloat (- 253 / 15))],
               tr_mode = ''lines'', tr_name = ''Regression Line''\<rparr>],
          xaxis_title = ''Time'',
          yaxis_title = ''Temperature ('' @ degree_sign @ ''C)''\<rparr>"
proof -
  let ?buf = "deque_contents sample_store_3 (deque_snapshot sample_snapshot_3)"
  let ?ts = "[Timestamp (sample_now\<lparr>dt_second := 7, dt_microsecond := 0\<rparr>),
           Timestamp (sample_now\<lparr>dt_second := 10, dt_microsecond := 0\<rparr>),
           Timestamp (sample_now\<lparr>dt_second := 13, dt_microsecond := 0\<rparr>)]"
  have b: "?buf = the_deque sample_store_3" by (simp add: deque_contents_def)
  have len: "length ?buf = 3" unfolding b by (simp add: sample_deques)
  have h1: "to_datetime pandas_scipy (column_of ''timestamp'' ?buf) = Some ?ts"
    unfolding b by (simp add: pandas_scipy_def sample_columns_3 sample_times)
  have h2: "length ?ts = length ?buf" unfolding len by simp
  have fit: "linregress pandas_scipy (map real [0..<3]) (column_of ''temp_antarctic'' ?buf) =
      Some (Finite (1 / 5), Finite (- 259 / 15))"
  proof -
    have "linregress pandas_scipy = scipy_linregress" by (simp add: pandas_scipy_def)
    then show ?thesis unfolding b sample_columns_3 by (simp only: sample_fit_3)
  qed
  have line: "map (\<lambda>x. cell_of_float (fadd (fmul (Finite (1 / 5)) (Finite (real x))) (Finite (- 259 / 15))))
      [0..<3] = [Val (PyFloat (- 259 / 15)), Val (PyFloat (- 256 / 15)), Val (PyFloat (- 253 / 15))]"
    using sample_line_3 by (simp add: best_fit_line_def)
  have "fst (display_plot_body pandas_scipy sample_snapshot_3 sample_store_3) =
     (case linregress pandas_scipy (map real [0..<length ?buf]) (column_of ''temp_antarctic'' ?buf) of
        None \<Rightarrow> Inl LibraryError
      | Some (slope, intercept) \<Rightarrow>
          Inr \<lparr>fig_title = ''Temperature Readings with Regression Line (Antarctic)'',
               fig_traces =
                 [\<lparr>tr_x = ?ts, tr_y = column_of ''temp_antarctic'' ?buf, tr_mode = ''markers'',
                    tr_name = []\<rparr>,
                  \<lparr>tr_x = ?ts,
                    tr_y = map (\<lambda>x. cell_of_float (fadd (fmul slope (Finite (real x))) intercept))
                             [0..<length ?buf],
                    tr_mode = ''lines'', tr_name = ''Regression Line''\<rparr>],
               xaxis_title = ''Time'',
               yaxis_title = ''Temperature ('' @ degree_sign @ ''C)''\<rparr>)"
    unfolding sample_snapshot_3_def sample_store_3_def
    by (rule trend_line_over_row_indices [OF sample_wf(2) h1 [unfolded sample_snapshot_3_def sample_store_3_def]
          h2 [unfolded sample_snapshot_3_def sample_store_3_def], THEN conjunct1])
  then have "fst (display_plot_body pandas_scipy sample_snapshot_3 sample_store_3) =
          Inr \<lparr>fig_title = ''Temperature Readings with Regression Line (Antarctic)'',
               fig_traces =
                 [\<lparr>tr_x = ?ts, tr_y = column_of ''temp_antarctic'' ?buf, tr_mode = ''markers'',
                    tr_name = []\<rparr>,
                  \<lparr>tr_x = ?ts,
                    tr_y = [Val (PyFloat (- 259 / 15)), Val (PyFloat (- 256 / 15)),
                            Val (PyFloat (- 253 / 15))],
                    tr_mode = ''lines'', tr_name = ''Regression Line''\<rparr>],
               xaxis_title = ''Time'',
               yaxis_title = ''Temperature ('' @ degree_sign @ ''C)''\<rparr>"
    unfolding len fit by (simp only: option.case prod.case line)
  then show ?thesis
    using h1 fit sample_wf(2) unfolding b by (simp add: sample_columns_3)
qed

section \<open>The first render\<close>

lemma single_point_fit:
  "scipy_linregress (map real [0..<1]) [Val (PyFloat t)] = Some (NotANumber, NotANumber)"
  by (simp add: scipy_linregress_def mean_def)

lemma first_tick_buffer:
  "the_deque s = [] \<Longrightarrow> the_deque (snd (reactive_calc_combined i s)) = [new_dictionary_entry i]"
  by (simp add: the_deque_step deque_append_def DEQUE_SIZE_def)

lemma first_tick_columns:
  "column_of ''temp_antarctic'' [new_dictionary_entry i] =
     [Val (PyFloat (py_round1 (uniform_1st i (- 18) (- 16))))]"
  "column_of ''temp_arctic'' [new_dictionary_entry i] =
     [Val (PyFloat (py_round1 (uniform_2nd i (- 20) (- 15))))]"
  "column_of ''timestamp'' [new_dictionary_entry i] = [Val (PyStr (strftime (now i)))]"
  by (simp_all add: column_of_def new_dictionary_entry_def Let_def)

text \<open>The chart drawn from the tuple of the first tick: the figure and the store.\<close>

lemma first_render:
  assumes e: "the_deque s = []" and v: "valid_clock (now i)"
  shows "display_plot_body pandas_scipy (fst (reactive_calc_combined i s))
           (snd (reactive_calc_combined i s)) =
     (Inr \<lparr>fig_title = ''Temperature Readings with Regression Line (Antarctic)'',
           fig_traces =
             [\<lparr>tr_x = [Timestamp ((now i)\<lparr>dt_microsecond := 0\<rparr>)],
                tr_y = [Val (PyFloat (py_round1 (uniform_1st i (- 18) (- 16))))],
                tr_mode = ''markers'', tr_name = []\<rparr>,
              \<lparr>tr_x = [Timestamp ((now i)\<lparr>dt_microsecond := 0\<rparr>)], tr_y = [NaN],
                tr_mode = ''lines'', tr_name = ''Regression Line''\<rparr>],
           xaxis_title = ''Time'',
           yaxis_title = ''Temperature ('' @ degree_sign @ ''C)''\<rparr>,
      put_frame (snd (reactive_calc_combined i s)) (df (fst (reactive_calc_combined i s)))
        \<lparr>nrows = 1,
         columns = [(''temp_antarctic'', [Val (PyFloat (py_round1 (uniform_1st i (- 18) (- 16))))]),
                    (''temp_arctic'', [Val (PyFloat (py_round1 (uniform_2nd i (- 20) (- 15))))]),
                    (''timestamp'', [Timestamp ((now i)\<lparr>dt_microsecond := 0\<rparr>)]),
                    (''best_fit_line'', [NaN])]\<rparr>)"
proof -
  let ?snap = "fst (reactive_calc_combined i s)"
  let ?s' = "snd (reactive_calc_combined i s)"
  have wf: "wf_store s" using e by (simp add: wf_store_def)
  have b: "the_deque ?s' = [new_dictionary_entry i]" using e by (rule first_tick_buffer)
  have f0: "frame_at ?s' (df ?snap) =
      Some \<lparr>nrows = 1,
            columns = [(''temp_antarctic'', [Val (PyFloat (py_round1 (uniform_1st i (- 18) (- 16))))]),
                       (''temp_arctic'', [Val (PyFloat (py_round1 (uniform_2nd i (- 20) (- 15))))]),
                       (''timestamp'', [Val (PyStr (strftime (now i)))])]\<rparr>"
    using pipeline_frame [OF wf, of i] unfolding b first_tick_columns by simp
  have ts: "to_datetime pandas_scipy [Val (PyStr (strftime (now i)))] =
      Some [Timestamp ((now i)\<lparr>dt_microsecond := 0\<rparr>)]"
    by (simp add: pandas_scipy_def pandas_to_datetime_def parse_strftime [OF v])
  have fit: "linregress pandas_scipy (map real [0..<1])
      [Val (PyFloat (py_round1 (uniform_1st i (- 18) (- 16))))] = Some (NotANumber, NotANumber)"
    using single_point_fit by (simp add: pandas_scipy_def)
  show ?thesis
    using display_plot_body_on_pipeline_frame [OF f0 _ ts _ fit] by (simp add: best_fit_line_def)
qed




section \<open>What later operations do to a returned tuple\<close>

lemma sample_frame_1:
  "frame_at sample_store 0 =
     Some \<lparr>nrows = 1,
           columns = [(''temp_antarctic'', [Val (PyFloat (- 174 / 10))]),
                      (''temp_arctic'', [Val (PyFloat (- 188 / 10))]),
                      (''timestamp'', [Val (PyStr ''2024-06-09 14:05:07'')])]\<rparr>"
proof -
  have "frame_at sample_store (df sample_snapshot) =
     Some \<lparr>nrows = length (the_deque sample_store),
           columns = [(''temp_antarctic'', column_of ''temp_antarctic'' (the_deque sample_store)),
                      (''temp_arctic'', column_of ''temp_arctic'' (the_deque sample_store)),
                      (''timestamp'', column_of ''timestamp'' (the_deque sample_store))]\<rparr>"
    unfolding sample_snapshot_def sample_store_def
    by (rule pipeline_frame [OF wf_store_init, THEN conjunct2])
  then show ?thesis
    unfolding sample_columns_1 sample_refs by (simp add: sample_deques)
qed

lemma sample_frame_3:
  "frame_at sample_store_3 2 =
     Some \<lparr>nrows = 3,
           columns =
             [(''temp_antarctic'',
               [Val (PyFloat (- 174 / 10)), Val (PyFloat (- 168 / 10)), Val (PyFloat (- 17))]),
              (''temp_arctic'',
               [Val (PyFloat (- 188 / 10)), Val (PyFloat (- 162 / 10)), Val (PyFloat (- 175 / 10))]),
              (''timestamp'',
               [Val (PyStr ''2024-06-09 14:05:07''), Val (PyStr ''2024-06-09 14:05:10''),
                Val (PyStr ''2024-06-09 14:05:13'')])]\<rparr>"
proof -
  have "frame_at sample_store_3 (df sample_snapshot_3) =
     Some \<lparr>nrows = length (the_deque sample_store_3),
           columns = [(''temp_antarctic'', column_of ''temp_antarctic'' (the_deque sample_store_3)),
                      (''temp_arctic'', column_of ''temp_arctic'' (the_deque sample_store_3)),
                      (''timestamp'', column_of ''timestamp'' (the_deque sample_store_3))]\<rparr>"
    unfolding sample_snapshot_3_def sample_store_3_def
    by (rule pipeline_frame [OF sample_wf(2), THEN conjunct2])
  then show ?thesis
    unfolding sample_columns_3 sample_refs by (simp add: sample_deques)
qed

lemma frame_at_after_step:
  "r < length (frames s) \<Longrightarrow> frame_at (snd (reactive_calc_combined i s)) r = frame_at s r"
  by (simp add: reactive_calc_combined_eq frame_at_def nth_append)

lemma sample_plotted_eq:
  "sample_plotted = put_frame sample_store 0
     \<lparr>nrows = 1,
      columns = [(''temp_antarctic'', [Val (PyFloat (- 174 / 10))]),
                 (''temp_arctic'', [Val (PyFloat (- 188 / 10))]),
                 (''timestamp'', [Timestamp (sample_now\<lparr>dt_microsecond := 0\<rparr>)]),
                 (''best_fit_line'', [NaN])]\<rparr>"
proof -
  have v: "valid_clock (now sample_input)"
    by (simp add: valid_clock_def sample_input_def sample_now_def)
  have e: "the_deque init_store = []" by (simp add: init_store_def)
  have t: "py_round1 (uniform_1st sample_input (- 18) (- 16)) = - 174 / 10"
    "py_round1 (uniform_2nd sample_input (- 20) (- 15)) = - 188 / 10"
    by (simp_all add: sample_input_def py_round1_def round_half_even_def Let_def)
  have n: "now sample_input = sample_now" by (simp add: sample_input_def)
  have "sample_plotted =
      snd (display_plot_body pandas_scipy (fst (reactive_calc_combined sample_input init_store))
             (snd (reactive_calc_combined sample_input init_store)))"
    by (simp only: sample_plotted_def sample_snapshot_def sample_store_def)
  also have "\<dots> = put_frame sample_store (df sample_snapshot)
        \<lparr>nrows = 1,
         columns = [(''temp_antarctic'', [Val (PyFloat (py_round1 (uniform_1st sample_input (- 18) (- 16))))]),
                    (''temp_arctic'', [Val (PyFloat (py_round1 (uniform_2nd sample_input (- 20) (- 15))))]),
                    (''timestamp'', [Timestamp ((now sample_input)\<lparr>dt_microsecond := 0\<rparr>)]),
                    (''best_fit_line'', [NaN])]\<rparr>"
    unfolding first_render [OF e v] by (simp only: snd_conv sample_snapshot_def sample_store_def)
  finally show ?thesis unfolding t n sample_refs .
qed

lemma sample_render_3:
  "display_plot_body pandas_scipy sample_snapshot_3 sample_store_3 =
     (Inr \<lparr>fig_title = ''Temperature Readings with Regression Line (Antarctic)'',
           fig_traces =
             [\<lparr>tr_x = [Timestamp (sample_now\<lparr>dt_second := 7, dt_microsecond := 0\<rparr>),
                       Timestamp (sample_now\<lparr>dt_second := 10, dt_microsecond := 0\<rparr>),
                       Timestamp (sample_now\<lparr>dt_second := 13, dt_microsecond := 0\<rparr>)],
                tr_y = [Val (PyFloat (- 174 / 10)), Val (PyFloat (- 168 / 10)), Val (PyFloat (- 17))],
                tr_mode = ''markers'', tr_name = []\<rparr>,
              \<lparr>tr_x = [Timestamp (sample_now\<lparr>dt_second := 7, dt_microsecond := 0\<rparr>),
                       Timestamp (sample_now\<lparr>dt_second := 10, dt_microsecond := 0\<rparr>),
                       Timestamp (sample_now\<lparr>dt_second := 13, dt_microsecond := 0\<rparr>)],
                tr_y = best_fit_line (Finite (1 / 5)) (Finite (- 259 / 15)) [0..<3],
                tr_mode = ''lines'', tr_name = ''Regression Line''\<rparr>],
           xaxis_title = ''Time'',
           yaxis_title = ''Temperature ('' @ degree_sign @ ''C)''\<rparr>,
      put_frame sample_store_3 2
        \<lparr>nrows = 3,
         columns =
           [(''temp_antarctic'',
             [Val (PyFloat (- 174 / 10)), Val (PyFloat (- 168 / 10)), Val (PyFloat (- 17))]),
            (''temp_arctic'',
             [Val (PyFloat (- 188 / 10)), Val (PyFloat (- 162 / 10)), Val (PyFloat (- 175 / 10))]),
            (''timestamp'',
             [Timestamp (sample_now\<lparr>dt_second := 7, dt_microsecond := 0\<rparr>),
              Timestamp (sample_now\<lparr>dt_second := 10, dt_microsecond := 0\<rparr>),
              Timestamp (sample_now\<lparr>dt_second := 13, dt_microsecond := 0\<rparr>)]),
            (''best_fit_line'', best_fit_line (Finite (1 / 5)) (Finite (- 259 / 15)) [0..<3])]\<rparr>)"
proof -
  have l: "linregress pandas_scipy = scipy_linregress" "to_datetime pandas_scipy = pandas_to_datetime"
    by (simp_all add: pandas_scipy_def)
  have f0: "frame_at sample_store_3 (df sample_snapshot_3) =
     Some \<lparr>nrows = 3,
           columns =
             [(''temp_antarctic'',
               [Val (PyFloat (- 174 / 10)), Val (PyFloat (- 168 / 10)), Val (PyFloat (- 17))]),
              (''temp_arctic'',
               [Val (PyFloat (- 188 / 10)), Val (PyFloat (- 162 / 10)), Val (PyFloat (- 175 / 10))]),
              (''timestamp'',
               [Val (PyStr ''2024-06-09 14:05:07''), Val (PyStr ''2024-06-09 14:05:10''),
                Val (PyStr ''2024-06-09 14:05:13'')])]\<rparr>"
    unfolding sample_refs by (rule sample_frame_3)
  have ts: "to_datetime pandas_scipy
       [Val (PyStr ''2024-06-09 14:05:07''), Val (PyStr ''2024-06-09 14:05:10''),
        Val (PyStr ''2024-06-09 14:05:13'')] =
      Some [Timestamp (sample_now\<lparr>dt_second := 7, dt_microsecond := 0\<rparr>),
            Timestamp (sample_now\<lparr>dt_second := 10, dt_microsecond := 0\<rparr>),
            Timestamp (sample_now\<lparr>dt_second := 13, dt_microsecond := 0\<rparr>)]"
    unfolding l by (rule sample_times(1))
  have fit: "linregress pandas_scipy (map real [0..<3])
       [Val (PyFloat (- 174 / 10)), Val (PyFloat (- 168 / 10)), Val (PyFloat (- 17))] =
      Some (Finite (1 / 5), Finite (- 259 / 15))"
    unfolding l by (rule sample_fit_3)
  have n: "0 < (3::nat)" by simp
  have len: "length [Timestamp (sample_now\<lparr>dt_second := 7, dt_microsecond := 0\<rparr>),
            Timestamp (sample_now\<lparr>dt_second := 10, dt_microsecond := 0\<rparr>),
            Timestamp (sample_now\<lparr>dt_second := 13, dt_microsecond := 0\<rparr>)] = 3" by simp
  show ?thesis
    by (rule display_plot_body_on_pipeline_frame [OF f0 n ts len fit, unfolded sample_refs(2)])
qed

text \<open>
  C6, as stated, fails twice on the sample session. Drawing the chart from the tuple of
  the first tick writes to the frame that tuple refers to: before, the frame has no
  \<open>best_fit_line\<close> column and its timestamp is a string; after, the same frame object
  has the column, holding NaN, and its timestamp is a datetime. And the first component of
  that tuple is the live deque: after the second tick it shows two readings where it
  showed one.
\<close>

theorem returned_tuple_is_modified:
  "df sample_snapshot = 0 \<and>
   frame_column sample_store 0 ''best_fit_line'' = None \<and>
   frame_column sample_plotted 0 ''best_fit_line'' = Some [NaN] \<and>
   frame_column sample_store 0 ''timestamp'' = Some [Val (PyStr ''2024-06-09 14:05:07'')] \<and>
   frame_column sample_plotted 0 ''timestamp'' =
     Some [Timestamp (sample_now\<lparr>dt_microsecond := 0\<rparr>)] \<and>
   deque_contents sample_store (deque_snapshot sample_snapshot) =
     [[(''temp_antarctic'', PyFloat (- 174 / 10)), (''temp_arctic'', PyFloat (- 188 / 10)),
       (''timestamp'', PyStr ''2024-06-09 14:05:07'')]] \<and>
   deque_contents sample_store_2 (deque_snapshot sample_snapshot) =
     [[(''temp_antarctic'', PyFloat (- 174 / 10)), (''temp_arctic'', PyFloat (- 188 / 10)),
       (''timestamp'', PyStr ''2024-06-09 14:05:07'')],
      [(''temp_antarctic'', PyFloat (- 168 / 10)), (''temp_arctic'', PyFloat (- 162 / 10)),
       (''timestamp'', PyStr ''2024-06-09 14:05:10'')]]"
proof -
  have p: "frame_at sample_plotted 0 =
     Some \<lparr>nrows = 1,
           columns = [(''temp_antarctic'', [Val (PyFloat (- 174 / 10))]),
                      (''temp_arctic'', [Val (PyFloat (- 188 / 10))]),
                      (''timestamp'', [Timestamp (sample_now\<lparr>dt_microsecond := 0\<rparr>)]),
                      (''best_fit_line'', [NaN])]\<rparr>"
    unfolding sample_plotted_eq by (rule frame_at_put_same [OF sample_frame_1])
  have a: "frame_column sample_store 0 ''best_fit_line'' = None"
    "frame_column sample_store 0 ''timestamp'' = Some [Val (PyStr ''2024-06-09 14:05:07'')]"
    by (simp_all add: frame_column_def sample_frame_1 df_getitem_def)
  have b: "frame_column sample_plotted 0 ''best_fit_line'' = Some [NaN]"
    "frame_column sample_plotted 0 ''timestamp'' =
       Some [Timestamp (sample_now\<lparr>dt_microsecond := 0\<rparr>)]"
    by (simp_all add: frame_column_def p df_getitem_def)
  have d: "deque_contents sample_store (deque_snapshot sample_snapshot) =
     [[(''temp_antarctic'', PyFloat (- 174 / 10)), (''temp_arctic'', PyFloat (- 188 / 10)),
       (''timestamp'', PyStr ''2024-06-09 14:05:07'')]]"
    "deque_contents sample_store_2 (deque_snapshot sample_snapshot) =
     [[(''temp_antarctic'', PyFloat (- 174 / 10)), (''temp_arctic'', PyFloat (- 188 / 10)),
       (''timestamp'', PyStr ''2024-06-09 14:05:07'')],
      [(''temp_antarctic'', PyFloat (- 168 / 10)), (''temp_arctic'', PyFloat (- 162 / 10)),
       (''timestamp'', PyStr ''2024-06-09 14:05:10'')]]"
    by (simp_all add: deque_contents_def sample_deques sample_entry sample_entry_2)
  show ?thesis by (intro conjI sample_refs(1) a b d)
qed

lemma compare_temperatures_state:
  "snd (compare_temperatures inp rt) = snd (reactive_calc_combined_call inp rt)"
  by (simp add: compare_temperatures_def split_beta)

lemma display_plot_cache:
  "cache (snd (display_plot L inp rt)) = cache (snd (reactive_calc_combined_call inp rt))"
  by (simp add: display_plot_def split_beta)

lemma display_plot_body_writes:
  assumes f: "frame_at s (df snap) = Some f"
    and ok: "fst (display_plot_body L snap s) = Inr fig"
  shows "\<exists>T ts A slope intercept f'.
           df_getitem f ''timestamp'' = Some T \<and> to_datetime L T = Some ts \<and>
           df_getitem f ''temp_antarctic'' = Some A \<and>
           linregress L (map real [0..<nrows f]) A = Some (slope, intercept) \<and>
           frame_at (snd (display_plot_body L snap s)) (df snap) = Some f' \<and>
           df_getitem f' ''timestamp'' = Some ts \<and>
           df_getitem f' ''best_fit_line'' = Some (best_fit_line slope intercept [0..<nrows f])"
proof -
  from ok obtain f0 T ts f1 scat A slope intercept f2 where
    f0: "frame_at s (df snap) = Some f0"
    and T: "df_getitem f0 ''timestamp'' = Some T" and ts: "to_datetime L T = Some ts"
    and f1: "df_setitem f0 ''timestamp'' ts = Some f1"
    and sc: "px_scatter f1 = Some scat"
    and A: "df_getitem f1 ''temp_antarctic'' = Some A"
    and fit: "linregress L (map real [0..<nrows f1]) A = Some (slope, intercept)"
    and f2: "df_setitem f1 ''best_fit_line'' (best_fit_line slope intercept [0..<nrows f1]) = Some f2"
    and p: "snd (display_plot_body L snap s) = put_frame s (df snap) f2"
    by (rule display_plot_body_success)
  from f f0 have e: "f0 = f" by simp
  have n: "nrows f1 = nrows f" using df_setitem_props(1) [OF f1] e by simp
  have A': "df_getitem f ''temp_antarctic'' = Some A"
    using A by (simp add: df_setitem_props(3) [OF f1] e)
  have g1: "df_getitem f2 ''best_fit_line'' = Some (best_fit_line slope intercept [0..<nrows f])"
    by (simp add: df_setitem_props(3) [OF f2] n)
  have "df_getitem f1 ''timestamp'' = Some ts" by (simp add: df_setitem_props(3) [OF f1])
  then have g2: "df_getitem f2 ''timestamp'' = Some ts"
    by (simp add: df_setitem_props(3) [OF f2])
  have q: "frame_at (snd (display_plot_body L snap s)) (df snap) = Some f2"
    unfolding p by (rule frame_at_put_same [OF f])
  show ?thesis
  proof (intro exI conjI)
    show "df_getitem f ''timestamp'' = Some T" using T e by simp
    show "to_datetime L T = Some ts" by (rule ts)
    show "df_getitem f ''temp_antarctic'' = Some A" by (rule A')
    show "linregress L (map real [0..<nrows f]) A = Some (slope, intercept)" using fit n by simp
    show "frame_at (snd (display_plot_body L snap s)) (df snap) = Some f2" by (rule q)
    show "df_getitem f2 ''timestamp'' = Some ts" by (rule g2)
    show "df_getitem f2 ''best_fit_line'' = Some (best_fit_line slope intercept [0..<nrows f])"
      by (rule g1)
  qed
qed

text \<open>
  C6, amended. \<open>reactive_value_wrapper.get()\<close> returns the buffer object and leaves the
  store as it is. The first component of a tuple is that object, so after a later
  invocation it shows the buffer with the new reading appended; every frame built before
  that invocation stays as it was. Drawing the chart leaves the deque and every other
  frame as they were. In the frame of its tuple it keeps the row count and every column
  other than \<open>timestamp\<close> and \<open>best_fit_line\<close>, and when it returns a figure the
  \<open>timestamp\<close> column has become its \<open>pd.to_datetime\<close> conversion and \<open>best_fit_line\<close>
  holds the fitted line over the row indices. Neither the chart nor the comparison text
  changes the cached tuple, so its latest entry stays what it was; the comparison text
  changes nothing beyond what fetching the tuple does.
\<close>

theorem snapshot_frame_effects:
  "snd (reactive_value_wrapper_get s) = s \<and>
   deque_contents s (fst (reactive_value_wrapper_get s)) = the_deque s \<and>
   deque_contents (snd (reactive_calc_combined i s)) d =
     deque_append DEQUE_SIZE (deque_contents s d) (new_dictionary_entry i) \<and>
   (r < length (frames s) \<longrightarrow> frame_at (snd (reactive_calc_combined i s)) r = frame_at s r) \<and>
   the_deque (snd (display_plot_body L snap c)) = the_deque c \<and>
   (r' \<noteq> df snap \<longrightarrow> frame_at (snd (display_plot_body L snap c)) r' = frame_at c r') \<and>
   (frame_at c (df snap) = Some f \<longrightarrow>
      (\<exists>f'. frame_at (snd (display_plot_body L snap c)) (df snap) = Some f' \<and>
            nrows f' = nrows f \<and> (columns f \<noteq> [] \<longrightarrow> columns f' \<noteq> []) \<and>
            (\<forall>k. k \<noteq> ''timestamp'' \<and> k \<noteq> ''best_fit_line'' \<longrightarrow>
                 df_getitem f' k = df_getitem f k))) \<and>
   (frame_at c (df snap) = Some f \<and> fst (display_plot_body L snap c) = Inr fig \<longrightarrow>
      (\<exists>T ts A slope intercept f'.
           df_getitem f ''timestamp'' = Some T \<and> to_datetime L T = Some ts \<and>
           df_getitem f ''temp_antarctic'' = Some A \<and>
           linregress L (map real [0..<nrows f]) A = Some (slope, intercept) \<and>
           frame_at (snd (display_plot_body L snap c)) (df snap) = Some f' \<and>
           df_getitem f' ''timestamp'' = Some ts \<and>
           df_getitem f' ''best_fit_line'' = Some (best_fit_line slope intercept [0..<nrows f]))) \<and>
   cache (snd (display_plot L inp rt)) = cache (snd (reactive_calc_combined_call inp rt)) \<and>
   snd (compare_temperatures inp rt) = snd (reactive_calc_combined_call inp rt)"
proof (intro conjI impI)
  show "snd (reactive_value_wrapper_get s) = s"
    by (simp add: reactive_value_wrapper_get_def)
  show "deque_contents s (fst (reactive_value_wrapper_get s)) = the_deque s"
    by (simp add: deque_contents_def)
  show "deque_contents (snd (reactive_calc_combined i s)) d =
     deque_append DEQUE_SIZE (deque_contents s d) (new_dictionary_entry i)"
    by (simp add: deque_contents_def the_deque_step)
  show "frame_at (snd (reactive_calc_combined i s)) r = frame_at s r" if "r < length (frames s)"
    using that by (rule frame_at_after_step)
  show "the_deque (snd (display_plot_body L snap c)) = the_deque c"
    by (rule frame_written_deque [OF display_plot_body_store])
  show "frame_at (snd (display_plot_body L snap c)) r' = frame_at c r'" if "r' \<noteq> df snap"
    using display_plot_body_store that by (rule frame_written_other)
  show "\<exists>f'. frame_at (snd (display_plot_body L snap c)) (df snap) = Some f' \<and>
            nrows f' = nrows f \<and> (columns f \<noteq> [] \<longrightarrow> columns f' \<noteq> []) \<and>
            (\<forall>k. k \<noteq> ''timestamp'' \<and> k \<noteq> ''best_fit_line'' \<longrightarrow>
                 df_getitem f' k = df_getitem f k)"
    if "frame_at c (df snap) = Some f"
    using display_plot_body_store that by (rule frame_written_columns)
  show "\<exists>T ts A slope intercept f'.
           df_getitem f ''timestamp'' = Some T \<and> to_datetime L T = Some ts \<and>
           df_getitem f ''temp_antarctic'' = Some A \<and>
           linregress L (map real [0..<nrows f]) A = Some (slope, intercept) \<and>
           frame_at (snd (display_plot_body L snap c)) (df snap) = Some f' \<and>
           df_getitem f' ''timestamp'' = Some ts \<and>
           df_getitem f' ''best_fit_line'' = Some (best_fit_line slope intercept [0..<nrows f])"
    if "frame_at c (df snap) = Some f \<and> fst (display_plot_body L snap c) = Inr fig"
    using that by (intro display_plot_body_writes) simp_all
  show "cache (snd (display_plot L inp rt)) = cache (snd (reactive_calc_combined_call inp rt))"
    by (rule display_plot_cache)
  show "snd (compare_temperatures inp rt) = snd (reactive_calc_combined_call inp rt)"
    by (rule compare_temperatures_state)
qed

theorem snapshot_frame_effects_witness:
  "0 < length (frames sample_store_2) \<and>
   frame_at sample_store_3 0 = frame_at sample_store_2 0 \<and>
   frame_at sample_store_2 0 =
     Some \<lparr>nrows = 1,
           columns = [(''temp_antarctic'', [Val (PyFloat (- 174 / 10))]),
                      (''temp_arctic'', [Val (PyFloat (- 188 / 10))]),
                      (''timestamp'', [Val (PyStr ''2024-06-09 14:05:07'')])]\<rparr> \<and>
   deque_contents sample_store_3 (deque_snapshot sample_snapshot) =
     map new_dictionary_entry [sample_input, sample_input_2, sample_input_3] \<and>
   0 \<noteq> df sample_snapshot_3 \<and>
   frame_at sample_plotted_3 0 = frame_at sample_store_3 0 \<and>
   the_deque sample_plotted_3 = the_deque sample_store_3 \<and>
   frame_column sample_plotted_3 2 ''temp_arctic'' =
     Some [Val (PyFloat (- 188 / 10)), Val (PyFloat (- 162 / 10)), Val (PyFloat (- 175 / 10))] \<and>
   frame_column sample_plotted_3 2 ''timestamp'' =
     Some [Timestamp (sample_now\<lparr>dt_second := 7, dt_microsecond := 0\<rparr>),
           Timestamp (sample_now\<lparr>dt_second := 10, dt_microsecond := 0\<rparr>),
           Timestamp (sample_now\<lparr>dt_second := 13, dt_microsecond := 0\<rparr>)] \<and>
   frame_column sample_plotted_3 2 ''best_fit_line'' =
     Some [Val (PyFloat (- 259 / 15)), Val (PyFloat (- 256 / 15)), Val (PyFloat (- 253 / 15))]"
proof -
  let ?F3 = "\<lparr>nrows = 3,
           columns =
             [(''temp_antarctic'',
               [Val (PyFloat (- 174 / 10)), Val (PyFloat (- 168 / 10)), Val (PyFloat (- 17))]),
              (''temp_arctic'',
               [Val (PyFloat (- 188 / 10)), Val (PyFloat (- 162 / 10)), Val (PyFloat (- 175 / 10))]),
              (''timestamp'',
               [Val (PyStr ''2024-06-09 14:05:07''), Val (PyStr ''2024-06-09 14:05:10''),
                Val (PyStr ''2024-06-09 14:05:13'')])]\<rparr>"
  let ?T0 = "[Val (PyStr ''2024-06-09 14:05:07''), Val (PyStr ''2024-06-09 14:05:10''),
                Val (PyStr ''2024-06-09 14:05:13'')]"
  let ?TS = "[Timestamp (sample_now\<lparr>dt_second := 7, dt_microsecond := 0\<rparr>),
           Timestamp (sample_now\<lparr>dt_second := 10, dt_microsecond := 0\<rparr>),
           Timestamp (sample_now\<lparr>dt_second := 13, dt_microsecond := 0\<rparr>)]"
  let ?A0 = "[Val (PyFloat (- 174 / 10)), Val (PyFloat (- 168 / 10)), Val (PyFloat (- 17))]"
  obtain fig where ok: "fst (display_plot_body pandas_scipy sample_snapshot_3 sample_store_3) = Inr fig"
    unfolding sample_render_3 by simp
  note T = snapshot_frame_effects [where s = sample_store_2 and i = sample_input_3
      and d = "deque_snapshot sample_snapshot" and r = 0 and L = pandas_scipy
      and snap = sample_snapshot_3 and c = sample_store_3 and r' = 0 and f = ?F3 and fig = fig
      and inp = sample_input and rt = init_runtime,
      folded sample_store_3_def, folded sample_plotted_3_def]
  have len: "0 < length (frames sample_store_2)" by (simp add: sample_frame_counts)
  have f3: "frame_at sample_store_3 (df sample_snapshot_3) = Some ?F3"
    unfolding sample_refs by (rule sample_frame_3)
  have n0: "0 \<noteq> df sample_snapshot_3" by (simp add: sample_refs)
  from T have "0 < length (frames sample_store_2) \<longrightarrow>
      frame_at sample_store_3 0 = frame_at sample_store_2 0" by (elim conjE)
  with len have a: "frame_at sample_store_3 0 = frame_at sample_store_2 0" by (rule rev_mp)
  have "frame_at sample_store_2 0 = frame_at sample_store 0"
    unfolding sample_store_2_def
    by (rule frame_at_after_step) (simp add: sample_frame_counts [unfolded sample_store_2_def])
  then have a': "frame_at sample_store_2 0 =
     Some \<lparr>nrows = 1,
           columns = [(''temp_antarctic'', [Val (PyFloat (- 174 / 10))]),
                      (''temp_arctic'', [Val (PyFloat (- 188 / 10))]),
                      (''timestamp'', [Val (PyStr ''2024-06-09 14:05:07'')])]\<rparr>"
    by (simp only: sample_frame_1)
  from T have "deque_contents sample_store_3 (deque_snapshot sample_snapshot) =
     deque_append DEQUE_SIZE (deque_contents sample_store_2 (deque_snapshot sample_snapshot))
       (new_dictionary_entry sample_input_3)" by (elim conjE)
  then have b: "deque_contents sample_store_3 (deque_snapshot sample_snapshot) =
     map new_dictionary_entry [sample_input, sample_input_2, sample_input_3]"
    by (simp add: deque_contents_def sample_deques deque_append_def DEQUE_SIZE_def)
  from T have "0 \<noteq> df sample_snapshot_3 \<longrightarrow>
      frame_at sample_plotted_3 0 = frame_at sample_store_3 0" by (elim conjE)
  with n0 have c: "frame_at sample_plotted_3 0 = frame_at sample_store_3 0" by (rule rev_mp)
  from T have d: "the_deque sample_plotted_3 = the_deque sample_store_3" by (elim conjE)
  from T have "frame_at sample_store_3 (df sample_snapshot_3) = Some ?F3 \<and>
      fst (display_plot_body pandas_scipy sample_snapshot_3 sample_store_3) = Inr fig \<longrightarrow>
      (\<exists>T ts A slope intercept f'.
           df_getitem ?F3 ''timestamp'' = Some T \<and> to_datetime pandas_scipy T = Some ts \<and>
           df_getitem ?F3 ''temp_antarctic'' = Some A \<and>
           linregress pandas_scipy (map real [0..<nrows ?F3]) A = Some (slope, intercept) \<and>
           frame_at sample_plotted_3 (df sample_snapshot_3) = Some f' \<and>
           df_getitem f' ''timestamp'' = Some ts \<and>
           df_getitem f' ''best_fit_line'' = Some (best_fit_line slope intercept [0..<nrows ?F3]))"
    by (elim conjE)
  then have "\<exists>T ts A slope intercept f'.
           df_getitem ?F3 ''timestamp'' = Some T \<and> to_datetime pandas_scipy T = Some ts \<and>
           df_getitem ?F3 ''temp_antarctic'' = Some A \<and>
           linregress pandas_scipy (map real [0..<nrows ?F3]) A = Some (slope, intercept) \<and>
           frame_at sample_plotted_3 (df sample_snapshot_3) = Some f' \<and>
           df_getitem f' ''timestamp'' = Some ts \<and>
           df_getitem f' ''best_fit_line'' = Some (best_fit_line slope intercept [0..<nrows ?F3])"
    using conjI [OF f3 ok] by (rule mp)
  then obtain T0 ts A slope intercept f' where W:
    "df_getitem ?F3 ''timestamp'' = Some T0 \<and> to_datetime pandas_scipy T0 = Some ts \<and>
     df_getitem ?F3 ''temp_antarctic'' = Some A \<and>
     linregress pandas_scipy (map real [0..<nrows ?F3]) A = Some (slope, intercept) \<and>
     frame_at sample_plotted_3 (df sample_snapshot_3) = Some f' \<and>
     df_getitem f' ''timestamp'' = Some ts \<and>
     df_getitem f' ''best_fit_line'' = Some (best_fit_line slope intercept [0..<nrows ?F3])"
    by (elim exE)
  note w1 = W [THEN conjunct1]
    and w2 = W [THEN conjunct2, THEN conjunct1]
    and w3 = W [THEN conjunct2, THEN conjunct2, THEN conjunct1]
    and w4 = W [THEN conjunct2, THEN conjunct2, THEN conjunct2, THEN conjunct1]
    and w5 = W [THEN conjunct2, THEN conjunct2, THEN conjunct2, THEN conjunct2, THEN conjunct1]
    and w6 = W [THEN conjunct2, THEN conjunct2, THEN conjunct2, THEN conjunct2, THEN conjunct2,
                THEN conjunct1]
    and w7 = W [THEN conjunct2, THEN conjunct2, THEN conjunct2, THEN conjunct2, THEN conjunct2,
                THEN conjunct2]
  have l: "linregress pandas_scipy = scipy_linregress" "to_datetime pandas_scipy = pandas_to_datetime"
    by (simp_all add: pandas_scipy_def)
  from w1 have t0: "T0 = ?T0" by (simp add: df_getitem_def)
  from w2 have ts: "ts = ?TS" unfolding t0 l sample_times(1) by simp
  from w3 have a0: "A = ?A0" by (simp add: df_getitem_def)
  have n3: "nrows ?F3 = 3" by simp
  from w4 have "Some (slope, intercept) = Some (Finite (1 / 5), Finite (- 259 / 15))"
    unfolding a0 n3 l sample_fit_3 by (rule sym)
  then have si: "slope = Finite (1 / 5)" "intercept = Finite (- 259 / 15)" by simp_all
  from T have "frame_at sample_store_3 (df sample_snapshot_3) = Some ?F3 \<longrightarrow>
      (\<exists>f'. frame_at sample_plotted_3 (df sample_snapshot_3) = Some f' \<and>
            nrows f' = nrows ?F3 \<and> (columns ?F3 \<noteq> [] \<longrightarrow> columns f' \<noteq> []) \<and>
            (\<forall>k. k \<noteq> ''timestamp'' \<and> k \<noteq> ''best_fit_line'' \<longrightarrow>
                 df_getitem f' k = df_getitem ?F3 k))"
    by (elim conjE)
  then have "\<exists>f'. frame_at sample_plotted_3 (df sample_snapshot_3) = Some f' \<and>
            nrows f' = nrows ?F3 \<and> (columns ?F3 \<noteq> [] \<longrightarrow> columns f' \<noteq> []) \<and>
            (\<forall>k. k \<noteq> ''timestamp'' \<and> k \<noteq> ''best_fit_line'' \<longrightarrow>
                 df_getitem f' k = df_getitem ?F3 k)"
    using f3 by (rule mp)
  then obtain g where G: "frame_at sample_plotted_3 (df sample_snapshot_3) = Some g \<and>
            nrows g = nrows ?F3 \<and> (columns ?F3 \<noteq> [] \<longrightarrow> columns g \<noteq> []) \<and>
            (\<forall>k. k \<noteq> ''timestamp'' \<and> k \<noteq> ''best_fit_line'' \<longrightarrow>
                 df_getitem g k = df_getitem ?F3 k)"
    by (elim exE)
  note g1 = G [THEN conjunct1] and g2 = G [THEN conjunct2, THEN conjunct2, THEN conjunct2]
  from g1 w5 have gf: "g = f'" by simp
  from g2 have "''temp_arctic'' \<noteq> ''timestamp'' \<and> ''temp_arctic'' \<noteq> ''best_fit_line'' \<longrightarrow>
       df_getitem g ''temp_arctic'' = df_getitem ?F3 ''temp_arctic''" by (rule spec)
  then have e1: "df_getitem f' ''temp_arctic'' =
      Some [Val (PyFloat (- 188 / 10)), Val (PyFloat (- 162 / 10)), Val (PyFloat (- 175 / 10))]"
    unfolding gf by (simp add: df_getitem_def)
  have w5': "frame_at sample_plotted_3 2 = Some f'" using w5 unfolding sample_refs .
  have e: "frame_column sample_plotted_3 2 ''temp_arctic'' =
      Some [Val (PyFloat (- 188 / 10)), Val (PyFloat (- 162 / 10)), Val (PyFloat (- 175 / 10))]"
    unfolding frame_column_def w5' using e1 by simp
  have f: "frame_column sample_plotted_3 2 ''timestamp'' = Some ?TS"
    unfolding frame_column_def w5' using w6 unfolding ts by simp
  have "frame_column sample_plotted_3 2 ''best_fit_line'' =
      Some (best_fit_line (Finite (1 / 5)) (Finite (- 259 / 15)) [0..<3])"
    unfolding frame_column_def w5' using w7 unfolding si n3 by simp
  then have h: "frame_column sample_plotted_3 2 ''best_fit_line'' =
     Some [Val (PyFloat (- 259 / 15)), Val (PyFloat (- 256 / 15)), Val (PyFloat (- 253 / 15))]"
    by (simp only: sample_line_3)
  show ?thesis by (intro conjI len a a' b n0 c d e f h)
qed

section \<open>Memoization\<close>

text \<open>
  C7. After one call of the calculation, every further call before the timer fires returns
  the same tuple and leaves the runtime as it is, whatever inputs the environment would
  offer: no second reading is generated. That also holds after the chart has been drawn in
  between, which does not touch the deque, and the comparison text is computed from the
  same latest entry. Once the timer has fired, the next call runs the body again.
\<close>

theorem repeated_reads_return_cached_snapshot:
  fixes i1 rt
  defines "snap \<equiv> fst (reactive_calc_combined_call i1 rt)"
    and "rt1 \<equiv> snd (reactive_calc_combined_call i1 rt)"
  shows "reactive_calc_combined_call i2 rt1 = (snap, rt1) \<and>
         reactive_calc_combined_call i3 (snd (display_plot L i2 rt1)) =
           (snap, snd (display_plot L i2 rt1)) \<and>
         the_deque (heap (snd (display_plot L i2 rt1))) = the_deque (heap rt1) \<and>
         compare_temperatures i2 rt1 =
           (compare_temperatures_body (latest_dictionary_entry snap), rt1) \<and>
         reactive_calc_combined_call i2 (invalidate rt1) =
           (fst (reactive_calc_combined i2 (heap rt1)),
            \<lparr>heap = snd (reactive_calc_combined i2 (heap rt1)),
             cache = Some (fst (reactive_calc_combined i2 (heap rt1)))\<rparr>)"
proof -
  have c: "cache rt1 = Some snap" unfolding snap_def rt1_def by (rule call_caches)
  have r: "reactive_calc_combined_call j rt1 = (snap, rt1)" for j
    by (simp add: reactive_calc_combined_call_def c)
  have d: "display_plot L i2 rt1 =
      (fst (display_plot_body L snap (heap rt1)),
       rt1\<lparr>heap := snd (display_plot_body L snap (heap rt1))\<rparr>)"
    by (simp add: display_plot_def r split_beta)
  have "reactive_calc_combined_call i3 (snd (display_plot L i2 rt1)) =
           (snap, snd (display_plot L i2 rt1))"
    unfolding d by (simp add: reactive_calc_combined_call_def c)
  moreover have "the_deque (heap (snd (display_plot L i2 rt1))) = the_deque (heap rt1)"
    unfolding d by (simp add: frame_written_deque [OF display_plot_body_store])
  moreover have "compare_temperatures i2 rt1 =
           (compare_temperatures_body (latest_dictionary_entry snap), rt1)"
    by (simp add: compare_temperatures_def r)
  moreover have "reactive_calc_combined_call i2 (invalidate rt1) =
           (fst (reactive_calc_combined i2 (heap rt1)),
            \<lparr>heap = snd (reactive_calc_combined i2 (heap rt1)),
             cache = Some (fst (reactive_calc_combined i2 (heap rt1)))\<rparr>)"
    by (simp add: reactive_calc_combined_call_def invalidate_def split_beta)
  ultimately show ?thesis using r [of i2] by (intro conjI)
qed

end
